theory Spec2Isabelle
  imports Main "HOL-Library.Word"
begin

section \<open>Machine integers\<close>

text \<open>
  Every quantity of the admission controller and of the query schedule is an
  \<open>int64_t\<close>: a 64-bit word, compared as a signed value. \<open>std::max(a, b)\<close> is
  \<open>(a < b) ? b : a\<close> and \<open>std::min(a, b)\<close> is \<open>(b < a) ? b : a\<close>.
\<close>

type_synonym int64 = "64 word"

definition max64 :: "int64 \<Rightarrow> int64 \<Rightarrow> int64" where
  "max64 a b = (if a <s b then b else a)"

definition min64 :: "int64 \<Rightarrow> int64 \<Rightarrow> int64" where
  "min64 a b = (if b <s a then b else a)"

section \<open>Pool statistics (admission-controller.h)\<close>

text \<open>
  The four aggregate counters of \<open>AdmissionController::PoolStats\<close>. The
  constructor sets all of them to 0. A member \<open>x_\<close> of the source is the field
  \<open>x\<close> here, which is also the name of its accessor.
\<close>

record PoolStats =
  agg_num_running :: int64
  agg_num_queued :: int64
  agg_mem_reserved :: int64
  local_mem_admitted :: int64

definition PoolStats_init :: PoolStats where
  "PoolStats_init = \<lparr>agg_num_running = 0, agg_num_queued = 0,
     agg_mem_reserved = 0, local_mem_admitted = 0\<rparr>"

definition EffectiveMemReserved :: "PoolStats \<Rightarrow> int64" where
  "EffectiveMemReserved ps = max64 (agg_mem_reserved ps) (local_mem_admitted ps)"

section \<open>The query schedule (query-schedule.cc)\<close>

text \<open>
  The Thrift structures, with the fields the schedule and the admission
  controller read. An optional Thrift field is a value and its \<open>__isset\<close> flag.
\<close>

record TPoolConfig =
  max_requests :: int64
  max_queued :: int64
  max_mem_resources :: int64
  queue_timeout_ms :: int64
  min_query_mem_limit :: int64
  max_query_mem_limit :: int64
  clamp_mem_limit_query_option :: bool

record TQueryOptions =
  isset_mem_limit :: bool
  mem_limit :: int64

record TQueryExecRequest =
  isset_per_host_mem_estimate :: bool
  per_host_mem_estimate :: int64

type_synonym TNetworkAddress = "string \<times> int"

type_synonym TUniqueId = "int64 \<times> int64"

text \<open>
  \<open>per_backend_exec_params_\<close> is a \<open>std::map\<close> keyed by the backend's network
  address; the schedule code only takes its size, so the map is the list of its
  keys.
\<close>

record QuerySchedule =
  query_id :: TUniqueId
  request_pool :: string
  request :: TQueryExecRequest
  query_options :: TQueryOptions
  largest_min_reservation :: int64
  per_backend_exec_params :: "TNetworkAddress list"
  per_backend_mem_limit :: int64
  per_backend_mem_to_admit :: int64

text \<open>
  What the schedule takes from the rest of the process: the physical memory of
  the machine (\<open>MemInfo::physical_mem()\<close>), the buffer pool's
  \<open>ReservationUtil::GetMinMemLimitFromReservation\<close>, and whether \<open>DCHECK\<close>s
  are compiled in (they abort the process in a debug build and vanish in a
  release build).
\<close>

record Platform =
  physical_mem :: int64
  GetMinMemLimitFromReservation :: "int64 \<Rightarrow> int64"
  DCHECK_IS_ON :: bool

text \<open>\<open>None\<close> is the failed \<open>DCHECK\<close>.\<close>

definition GetPerHostMemoryEstimate :: "Platform \<Rightarrow> QuerySchedule \<Rightarrow> int64 option" where
  "GetPerHostMemoryEstimate pf s =
     (if DCHECK_IS_ON pf \<and> \<not> isset_per_host_mem_estimate (request s) then None
      else Some (per_host_mem_estimate (request s)))"

definition GetClusterMemoryToAdmit :: "QuerySchedule \<Rightarrow> int64" where
  "GetClusterMemoryToAdmit s =
     per_backend_mem_to_admit s * of_nat (length (per_backend_exec_params s))"

subsection \<open>UpdateMemoryRequirements\<close>

definition mimic_old_behaviour :: "TPoolConfig \<Rightarrow> bool" where
  "mimic_old_behaviour pool_cfg =
     (min_query_mem_limit pool_cfg = 0 \<and> max_query_mem_limit pool_cfg = 0)"

definition has_query_option :: "QuerySchedule \<Rightarrow> bool" where
  "has_query_option s =
     (isset_mem_limit (query_options s) \<and> 0 <s mem_limit (query_options s))"

text \<open>
  The body of \<open>UpdateMemoryRequirements\<close> is four blocks that update
  \<open>per_backend_mem_to_admit\<close> one after the other, and a last one that sets
  \<open>per_backend_mem_limit\<close>. First the starting value: the query option, or the
  planner's estimate raised to the reservation's minimum.
\<close>

definition start_mem_to_admit :: "Platform \<Rightarrow> TPoolConfig \<Rightarrow> QuerySchedule \<Rightarrow> QuerySchedule option" where
  "start_mem_to_admit pf pool_cfg s =
     (let s0 = s\<lparr>per_backend_mem_to_admit := 0\<rparr> in
      if has_query_option s0
      then Some (s0\<lparr>per_backend_mem_to_admit := mem_limit (query_options s0)\<rparr>)
      else
        (case GetPerHostMemoryEstimate pf s0 of
           None \<Rightarrow> None
         | Some est \<Rightarrow>
             (let s1 = s0\<lparr>per_backend_mem_to_admit := est\<rparr> in
              if \<not> mimic_old_behaviour pool_cfg
              then
                (let min_mem_limit_required =
                       GetMinMemLimitFromReservation pf (largest_min_reservation s1)
                 in Some (s1\<lparr>per_backend_mem_to_admit :=
                       max64 (per_backend_mem_to_admit s1) min_mem_limit_required\<rparr>))
              else Some s1)))"

text \<open>Then the pool's bounds, each one only when it is greater than zero.\<close>

definition clamp_to_pool_limits :: "TPoolConfig \<Rightarrow> bool \<Rightarrow> QuerySchedule \<Rightarrow> QuerySchedule" where
  "clamp_to_pool_limits pool_cfg has_option s =
     (if \<not> has_option \<or> clamp_mem_limit_query_option pool_cfg
      then
        (let s1 = (if 0 <s min_query_mem_limit pool_cfg
                   then s\<lparr>per_backend_mem_to_admit :=
                          max64 (per_backend_mem_to_admit s) (min_query_mem_limit pool_cfg)\<rparr>
                   else s)
         in if 0 <s max_query_mem_limit pool_cfg
            then s1\<lparr>per_backend_mem_to_admit :=
                   min64 (per_backend_mem_to_admit s1) (max_query_mem_limit pool_cfg)\<rparr>
            else s1)
      else s)"

text \<open>Then the cap at the physical memory.\<close>

definition cap_at_physical_mem :: "Platform \<Rightarrow> QuerySchedule \<Rightarrow> QuerySchedule" where
  "cap_at_physical_mem pf s =
     s\<lparr>per_backend_mem_to_admit := min64 (per_backend_mem_to_admit s) (physical_mem pf)\<rparr>"

text \<open>Last the limit that execution enforces.\<close>

definition set_per_backend_mem_limit :: "TPoolConfig \<Rightarrow> bool \<Rightarrow> QuerySchedule \<Rightarrow> QuerySchedule" where
  "set_per_backend_mem_limit pool_cfg has_option s =
     (if mimic_old_behaviour pool_cfg \<and> \<not> has_option
      then s\<lparr>per_backend_mem_limit := - 1\<rparr>
      else s\<lparr>per_backend_mem_limit := per_backend_mem_to_admit s\<rparr>)"

definition UpdateMemoryRequirements :: "Platform \<Rightarrow> TPoolConfig \<Rightarrow> QuerySchedule \<Rightarrow> QuerySchedule option" where
  "UpdateMemoryRequirements pf pool_cfg s =
     (case start_mem_to_admit pf pool_cfg s of
        None \<Rightarrow> None
      | Some s1 \<Rightarrow>
          Some (set_per_backend_mem_limit pool_cfg (has_query_option s)
                 (cap_at_physical_mem pf
                   (clamp_to_pool_limits pool_cfg (has_query_option s) s1))))"

section \<open>The admission controller (admission-controller.h)\<close>

text \<open>
  The header declares the controller's state and its operations; the bodies of the
  operations are in a source file that is not among these sources. The state
  below is the header's, reduced to the members that admission, queueing and
  dequeueing use. The operations are modelled from the specification, each one
  marked so.
\<close>

datatype AdmissionOutcome = ADMITTED | REJECTED_OR_TIMED_OUT | CANCELLED

text \<open>
  \<open>Status::OK\<close>, \<open>Status::CANCELLED\<close>, and a status that carries the reason of a
  rejection or of a timeout.
\<close>

datatype Reason =
    Pool_Disabled
  | Pool_Config_Invalid
  | Exceeds_Max_Mem_For_Pool
  | Initial_Reservation_Too_Large
  | Queue_Full
  | No_Executors
  | Queue_Timed_Out

datatype Status = Status_OK | Status_CANCELLED | Status_Expected Reason

text \<open>
  The admission results that the controller writes to a query's profile
  (\<open>PROFILE_INFO_VAL_ADMIT_IMMEDIATELY\<close> and the others).
\<close>

datatype AdmissionResult =
  ADMIT_IMMEDIATELY | QUEUED | CANCELLED_IN_QUEUE | ADMIT_QUEUED | REJECTED | TIME_OUT

text \<open>
  A queue node points to the schedule, to the outcome signal and to the profile of
  its request. The signals and the profiles belong to the callers and are shared
  with the controller: the signals are a store keyed by the query id
  (\<open>admit_outcomes\<close>), the profile entries a log that keeps the order in which
  they are written (\<open>profile_log\<close>). The two host memory maps are keyed by the
  address of the backend.
\<close>

record QueueNode =
  schedule :: QuerySchedule

type_synonym ProfileEntry = "string \<times> TUniqueId \<times> AdmissionResult"

record AdmissionController =
  host_mem_reserved :: "TNetworkAddress \<Rightarrow> int64"
  host_mem_admitted :: "TNetworkAddress \<Rightarrow> int64"
  pool_stats :: "string \<Rightarrow> PoolStats"
  request_queue_map :: "string \<Rightarrow> QueueNode list"
  admit_outcomes :: "TUniqueId \<Rightarrow> AdmissionOutcome option"
  profile_log :: "ProfileEntry list"

text \<open>
  Modelled from the spec: the constructor of the controller is missing. A fresh
  controller has empty maps and queues; \<open>GetPoolStats\<close> creates the statistics
  of a pool on first use, so every pool starts with fresh ones.
\<close>

definition AdmissionController_init :: AdmissionController where
  "AdmissionController_init =
     \<lparr>host_mem_reserved = (\<lambda>h. 0), host_mem_admitted = (\<lambda>h. 0),
      pool_stats = (\<lambda>p. PoolStats_init), request_queue_map = (\<lambda>p. []),
      admit_outcomes = (\<lambda>i. None), profile_log = []\<rparr>"

text \<open>
  Four functions that the header declares and whose bodies are missing. The
  specification describes them through the scalable pool limits, the gossiped
  statistics and reason strings, none of which the results below depend on, so
  they are parameters: every result holds whatever they answer.
\<close>

record Decisions =
  IsPoolConfigValidForCluster :: "TPoolConfig \<Rightarrow> int64 \<Rightarrow> bool"
  GetMaxMemForPool :: "TPoolConfig \<Rightarrow> int64 \<Rightarrow> int64"
  GetMaxQueuedForPool :: "TPoolConfig \<Rightarrow> int64 \<Rightarrow> int64"
  CanAdmitRequest :: "AdmissionController \<Rightarrow> QuerySchedule \<Rightarrow> TPoolConfig \<Rightarrow> int64 \<Rightarrow> bool \<Rightarrow> bool"

subsection \<open>The outcome signal\<close>

text \<open>
  Modelled from the spec: the body of \<open>Promise::Set\<close> is missing. The signal has
  several producers, the first write wins and later writes change nothing
  (sections 5 and 9). \<open>Promise_Set\<close> is the value the signal holds after the write.
\<close>

definition Promise_Set :: "AdmissionOutcome option \<Rightarrow> AdmissionOutcome \<Rightarrow> AdmissionOutcome" where
  "Promise_Set p v = (case p of None \<Rightarrow> v | Some w \<Rightarrow> w)"

subsection \<open>Pool statistics and host memory\<close>

text \<open>
  Modelled from the spec: the body of \<open>PoolStats::Admit\<close> is missing. Section
  4.1: one more running query, and the locally admitted memory grows by the
  per-host memory to admit times the number of hosts.
\<close>

definition PoolStats_Admit :: "QuerySchedule \<Rightarrow> PoolStats \<Rightarrow> PoolStats" where
  "PoolStats_Admit s ps =
     ps\<lparr>agg_num_running := agg_num_running ps + 1,
        local_mem_admitted := local_mem_admitted ps + GetClusterMemoryToAdmit s\<rparr>"

text \<open>
  Modelled from the spec: the body of \<open>PoolStats::Release\<close> is missing. Section
  4.1: the inverse of admit. The histogram of peak memory and the moving average
  of the wait time are left out.
\<close>

definition PoolStats_Release :: "QuerySchedule \<Rightarrow> PoolStats \<Rightarrow> PoolStats" where
  "PoolStats_Release s ps =
     ps\<lparr>agg_num_running := agg_num_running ps - 1,
        local_mem_admitted := local_mem_admitted ps - GetClusterMemoryToAdmit s\<rparr>"

text \<open>
  Modelled from the spec: the bodies of \<open>PoolStats::Queue\<close> and
  \<open>PoolStats::Dequeue\<close> are missing. Section 4.1: one more, one less queued
  request.
\<close>

definition PoolStats_Queue :: "PoolStats \<Rightarrow> PoolStats" where
  "PoolStats_Queue ps = ps\<lparr>agg_num_queued := agg_num_queued ps + 1\<rparr>"

definition PoolStats_Dequeue :: "PoolStats \<Rightarrow> PoolStats" where
  "PoolStats_Dequeue ps = ps\<lparr>agg_num_queued := agg_num_queued ps - 1\<rparr>"

text \<open>
  Modelled from the spec: the body of \<open>UpdateHostMemAdmitted\<close> is missing. Section
  4.1: the memory is added to the admitted memory of every host of the request.
\<close>

definition UpdateHostMemAdmitted :: "QuerySchedule \<Rightarrow> int64 \<Rightarrow> AdmissionController \<Rightarrow> AdmissionController" where
  "UpdateHostMemAdmitted s per_node_mem ctrl =
     ctrl\<lparr>host_mem_admitted :=
       fold (\<lambda>h m. m(h := m h + per_node_mem)) (per_backend_exec_params s)
         (host_mem_admitted ctrl)\<rparr>"

text \<open>
  Modelled from the spec: the body of \<open>AdmitQuery\<close> is missing. Section 4.3:
  update the pool statistics, then the admitted memory of the hosts. Metrics and
  the wake-up of the dequeue thread are left out.
\<close>

definition AdmitQuery :: "QuerySchedule \<Rightarrow> AdmissionController \<Rightarrow> AdmissionController" where
  "AdmitQuery s ctrl =
     UpdateHostMemAdmitted s (per_backend_mem_to_admit s)
       (ctrl\<lparr>pool_stats := (pool_stats ctrl)
          (request_pool s := PoolStats_Admit s (pool_stats ctrl (request_pool s)))\<rparr>)"

text \<open>
  Modelled from the spec: the body of \<open>ReleaseQuery\<close> is missing. Section 4.3:
  release in the pool statistics, then subtract from the admitted memory of the
  hosts.
\<close>

definition ReleaseQuery :: "QuerySchedule \<Rightarrow> AdmissionController \<Rightarrow> AdmissionController" where
  "ReleaseQuery s ctrl =
     UpdateHostMemAdmitted s (- per_backend_mem_to_admit s)
       (ctrl\<lparr>pool_stats := (pool_stats ctrl)
          (request_pool s := PoolStats_Release s (pool_stats ctrl (request_pool s)))\<rparr>)"

subsection \<open>Rejection\<close>

text \<open>
  Modelled from the spec: the body of \<open>PoolDisabled\<close> is missing. Section 4.1: a
  pool is disabled if and only if its \<open>max_requests\<close> is 0.
\<close>

definition PoolDisabled :: "TPoolConfig \<Rightarrow> bool" where
  "PoolDisabled pool_cfg = (max_requests pool_cfg = 0)"

text \<open>
  Modelled from the spec: the body of \<open>CanAccommodateMaxInitialReservation\<close> is
  missing. Section 4.2: the effective per-host limit is the final admitted limit
  after clamping, and the answer is no when it is below the largest initial
  reservation.
\<close>

definition CanAccommodateMaxInitialReservation :: "QuerySchedule \<Rightarrow> TPoolConfig \<Rightarrow> bool" where
  "CanAccommodateMaxInitialReservation s pool_cfg =
     (\<not> per_backend_mem_to_admit s <s largest_min_reservation s)"

text \<open>
  Modelled from the spec: the body of \<open>RejectImmediately\<close> is missing. Section
  4.2 lists six causes, any of which rejects; their order only chooses the
  reason. \<open>None\<close> is "do not reject".
\<close>

definition RejectImmediately :: "Decisions \<Rightarrow> QuerySchedule \<Rightarrow> TPoolConfig \<Rightarrow> int64 \<Rightarrow> AdmissionController \<Rightarrow> Reason option" where
  "RejectImmediately dc s pool_cfg cluster_size ctrl =
     (if PoolDisabled pool_cfg then Some Pool_Disabled
      else if \<not> IsPoolConfigValidForCluster dc pool_cfg cluster_size
        then Some Pool_Config_Invalid
      else if GetMaxMemForPool dc pool_cfg cluster_size <s GetClusterMemoryToAdmit s
        then Some Exceeds_Max_Mem_For_Pool
      else if \<not> CanAccommodateMaxInitialReservation s pool_cfg
        then Some Initial_Reservation_Too_Large
      else if sint (GetMaxQueuedForPool dc pool_cfg cluster_size)
                \<le> int (length (request_queue_map ctrl (request_pool s)))
        then Some Queue_Full
      else if per_backend_exec_params s = [] then Some No_Executors
      else None)"

subsection \<open>Submission\<close>

text \<open>
  A call of \<open>SubmitForAdmission\<close> either returns at once or parks its request and
  blocks.
\<close>

datatype Submission = Returned Status AdmissionOutcome | Blocked

text \<open>
  Modelled from the spec: the writes to the outcome signal of a query and to its
  profile (sections 4.3 and 6). \<open>set_outcome\<close> stores the value the signal holds
  after a write, which \<open>Promise_Set\<close> computes.
\<close>

definition set_outcome :: "TUniqueId \<Rightarrow> AdmissionOutcome \<Rightarrow> AdmissionController \<Rightarrow> AdmissionController" where
  "set_outcome i v ctrl = ctrl\<lparr>admit_outcomes := (admit_outcomes ctrl)(i := Some v)\<rparr>"

definition write_profile :: "QuerySchedule \<Rightarrow> AdmissionResult \<Rightarrow> AdmissionController \<Rightarrow> AdmissionController" where
  "write_profile s r ctrl =
     ctrl\<lparr>profile_log := profile_log ctrl @ [(request_pool s, query_id s, r)]\<rparr>"

text \<open>
  Modelled from the spec: the body of \<open>SubmitForAdmission\<close> is missing. Section
  4.3, steps 1 to 4, all under the controller's lock: derive the memory
  requirements; reject, or admit, or put a node at the tail of the pool's queue
  and count it. The pool configuration and the cluster size come from the
  collaborators and are arguments here.

  A rejection and an immediate admission write the outcome signal, and the first
  write wins (sections 5 and 9). When the caller has cancelled before, the write
  changes nothing: the call observes \<open>CANCELLED\<close>, an admission releases at
  once what it charged (section 5), nothing is written to the profile, and the
  call returns \<open>CANCELLED\<close>, the status that the header pairs with that outcome.

  \<open>None\<close> is a call without a result: the failed \<open>DCHECK\<close> of
  \<open>UpdateMemoryRequirements\<close>, or a signal that already holds the opposite
  decision, which none of its producers can have written before this call
  decides.
\<close>

definition submit_start :: "Decisions \<Rightarrow> Platform \<Rightarrow> TPoolConfig \<Rightarrow> int64 \<Rightarrow> QuerySchedule \<Rightarrow> AdmissionController
    \<Rightarrow> (Submission \<times> QuerySchedule \<times> AdmissionController) option" where
  "submit_start dc pf pool_cfg cluster_size s0 ctrl =
     (case UpdateMemoryRequirements pf pool_cfg s0 of
        None \<Rightarrow> None
      | Some s \<Rightarrow>
          (case RejectImmediately dc s pool_cfg cluster_size ctrl of
             Some reason \<Rightarrow>
               (case Promise_Set (admit_outcomes ctrl (query_id s)) REJECTED_OR_TIMED_OUT of
                  REJECTED_OR_TIMED_OUT \<Rightarrow>
                    Some (Returned (Status_Expected reason) REJECTED_OR_TIMED_OUT, s,
                          write_profile s REJECTED
                            (set_outcome (query_id s) REJECTED_OR_TIMED_OUT ctrl))
                | CANCELLED \<Rightarrow> Some (Returned Status_CANCELLED CANCELLED, s, ctrl)
                | ADMITTED \<Rightarrow> None)
           | None \<Rightarrow>
               if CanAdmitRequest dc ctrl s pool_cfg cluster_size False
               then
                 (case Promise_Set (admit_outcomes ctrl (query_id s)) ADMITTED of
                    ADMITTED \<Rightarrow>
                      Some (Returned Status_OK ADMITTED, s,
                            write_profile s ADMIT_IMMEDIATELY
                              (AdmitQuery s (set_outcome (query_id s) ADMITTED ctrl)))
                  | CANCELLED \<Rightarrow>
                      Some (Returned Status_CANCELLED CANCELLED, s,
                            ReleaseQuery s (AdmitQuery s ctrl))
                  | REJECTED_OR_TIMED_OUT \<Rightarrow> None)
               else Some (Blocked, s,
                          write_profile s QUEUED
                            (ctrl\<lparr>request_queue_map := (request_queue_map ctrl)
                                    (request_pool s :=
                                       request_queue_map ctrl (request_pool s) @ [\<lparr>schedule = s\<rparr>]),
                                  pool_stats := (pool_stats ctrl)
                                    (request_pool s :=
                                       PoolStats_Queue (pool_stats ctrl (request_pool s)))\<rparr>))))"

text \<open>
  Modelled from the spec: the body of \<open>SubmitForAdmission\<close> is missing. Section
  4.3, step 5, with the lock taken again after the wait. The caller writes
  \<open>REJECTED_OR_TIMED_OUT\<close> to the signal, which changes nothing when the dequeue
  thread or a cancellation wrote first. An outcome \<open>ADMITTED\<close> returns OK; the two
  others remove the node from the queue if it is still there, count the request
  out of the queue and return \<open>CANCELLED\<close> or the timeout.
\<close>

definition submit_finish :: "QuerySchedule \<Rightarrow> AdmissionController \<Rightarrow> Status \<times> AdmissionOutcome \<times> AdmissionController" where
  "submit_finish s ctrl =
     (let outcome = Promise_Set (admit_outcomes ctrl (query_id s)) REJECTED_OR_TIMED_OUT;
          ctrl1 = set_outcome (query_id s) outcome ctrl;
          ctrl2 = ctrl1\<lparr>request_queue_map := (request_queue_map ctrl1)
                          (request_pool s :=
                             filter (\<lambda>node. query_id (schedule node) \<noteq> query_id s)
                               (request_queue_map ctrl1 (request_pool s))),
                        pool_stats := (pool_stats ctrl1)
                          (request_pool s :=
                             PoolStats_Dequeue (pool_stats ctrl1 (request_pool s)))\<rparr>
      in case outcome of
           ADMITTED \<Rightarrow> (Status_OK, ADMITTED, ctrl1)
         | CANCELLED \<Rightarrow>
             (Status_CANCELLED, CANCELLED, write_profile s CANCELLED_IN_QUEUE ctrl2)
         | REJECTED_OR_TIMED_OUT \<Rightarrow>
             (Status_Expected Queue_Timed_Out, REJECTED_OR_TIMED_OUT,
              write_profile s TIME_OUT ctrl2))"

text \<open>
  Modelled from the spec: the body of \<open>SubmitForAdmission\<close> is missing. The
  whole call. While the caller is blocked the lock is free (section 5), and
  \<open>others\<close> is what the other threads make of the controller until the caller
  holds the lock again: the dequeue thread, cancellations, other submissions,
  gossip. The wait itself ends: it is bounded by the queue timeout.
\<close>

definition SubmitForAdmission :: "Decisions \<Rightarrow> Platform \<Rightarrow> TPoolConfig \<Rightarrow> int64
    \<Rightarrow> (AdmissionController \<Rightarrow> AdmissionController) \<Rightarrow> QuerySchedule \<Rightarrow> AdmissionController
    \<Rightarrow> (Status \<times> AdmissionOutcome \<times> QuerySchedule \<times> AdmissionController) option" where
  "SubmitForAdmission dc pf pool_cfg cluster_size others s0 ctrl =
     (case submit_start dc pf pool_cfg cluster_size s0 ctrl of
        None \<Rightarrow> None
      | Some (Returned status outcome, s, ctrl1) \<Rightarrow> Some (status, outcome, s, ctrl1)
      | Some (Blocked, s, ctrl1) \<Rightarrow>
          (case submit_finish s (others ctrl1) of
             (status, outcome, ctrl2) \<Rightarrow> Some (status, outcome, s, ctrl2)))"

subsection \<open>The dequeue thread\<close>

text \<open>
  Modelled from the spec: the body of \<open>DequeueLoop\<close> is missing. Section 4.4,
  steps 2 and 3, for one pool: up to \<open>max_to_dequeue\<close> attempts, each on the head
  of the queue. If the head can be admitted its signal is written, the node
  leaves the queue and the query is admitted; an admission that lost to a
  cancellation releases at once what it charged (section 5). If the head cannot
  be admitted the pass stops.
\<close>

fun DequeuePool :: "Decisions \<Rightarrow> TPoolConfig \<Rightarrow> int64 \<Rightarrow> string \<Rightarrow> nat \<Rightarrow> AdmissionController \<Rightarrow> AdmissionController" where
  "DequeuePool dc pool_cfg cluster_size pool 0 ctrl = ctrl"
| "DequeuePool dc pool_cfg cluster_size pool (Suc max_to_dequeue) ctrl =
     (case request_queue_map ctrl pool of
        [] \<Rightarrow> ctrl
      | node # rest \<Rightarrow>
          if CanAdmitRequest dc ctrl (schedule node) pool_cfg cluster_size True
          then
            (let s = schedule node;
                 outcome = Promise_Set (admit_outcomes ctrl (query_id s)) ADMITTED;
                 ctrl1 = set_outcome (query_id s) outcome ctrl;
                 ctrl2 = ctrl1\<lparr>request_queue_map := (request_queue_map ctrl1)(pool := rest)\<rparr>;
                 ctrl3 = AdmitQuery s ctrl2;
                 ctrl4 = (if outcome = ADMITTED
                          then ctrl3\<lparr>profile_log := profile_log ctrl3 @ [(pool, query_id s, ADMIT_QUEUED)]\<rparr>
                          else (ReleaseQuery s ctrl3)
                                 \<lparr>profile_log := profile_log ctrl3 @ [(pool, query_id s, CANCELLED_IN_QUEUE)]\<rparr>)
             in DequeuePool dc pool_cfg cluster_size pool max_to_dequeue ctrl4)
          else ctrl)"

subsection \<open>Runs of the controller\<close>

text \<open>
  Modelled from the spec: section 5. One lock protects the whole controller, so a
  run is a sequence of steps, each under the lock: the first part of a
  submission; the second part of one that was queued; a cancellation, which
  writes \<open>CANCELLED\<close> to the signal; a pass of the dequeue thread over one pool;
  and anything else, such as a release or a gossip update, which touches neither
  the queues nor the signals nor the profiles. A submission without a result ends
  the run with \<open>None\<close>.
\<close>

datatype Event =
    Ev_Submit TPoolConfig int64 QuerySchedule
  | Ev_Resume QuerySchedule
  | Ev_Cancel TUniqueId
  | Ev_Dequeue string TPoolConfig int64 nat
  | Ev_Other "AdmissionController \<Rightarrow> AdmissionController"

definition step :: "Decisions \<Rightarrow> Platform \<Rightarrow> Event \<Rightarrow> AdmissionController \<Rightarrow> AdmissionController option" where
  "step dc pf ev ctrl =
     (case ev of
        Ev_Submit pool_cfg cluster_size s0 \<Rightarrow>
          (case submit_start dc pf pool_cfg cluster_size s0 ctrl of
             None \<Rightarrow> None
           | Some (r, s, ctrl1) \<Rightarrow> Some ctrl1)
      | Ev_Resume s \<Rightarrow>
          if (request_pool s, query_id s, QUEUED) \<in> set (profile_log ctrl)
          then (case submit_finish s ctrl of (status, outcome, ctrl1) \<Rightarrow> Some ctrl1)
          else Some ctrl
      | Ev_Cancel i \<Rightarrow>
          Some (set_outcome i (Promise_Set (admit_outcomes ctrl i) CANCELLED) ctrl)
      | Ev_Dequeue pool pool_cfg cluster_size max_to_dequeue \<Rightarrow>
          Some (DequeuePool dc pool_cfg cluster_size pool max_to_dequeue ctrl)
      | Ev_Other f \<Rightarrow>
          Some ((f ctrl)\<lparr>request_queue_map := request_queue_map ctrl,
                          admit_outcomes := admit_outcomes ctrl,
                          profile_log := profile_log ctrl\<rparr>))"

fun run :: "Decisions \<Rightarrow> Platform \<Rightarrow> Event list \<Rightarrow> AdmissionController \<Rightarrow> AdmissionController option" where
  "run dc pf [] ctrl = Some ctrl"
| "run dc pf (ev # evs) ctrl =
     (case step dc pf ev ctrl of None \<Rightarrow> None | Some ctrl1 \<Rightarrow> run dc pf evs ctrl1)"

text \<open>
  What a profile log says about the queue of a pool: the requests that were
  queued, in the order of their queueing; whether a request has left the queue,
  admitted, cancelled or timed out; and whether one request was queued before
  another.
\<close>

definition queued :: "string \<Rightarrow> ProfileEntry list \<Rightarrow> TUniqueId list" where
  "queued pool log = map (\<lambda>e. fst (snd e)) (filter (\<lambda>e. fst e = pool \<and> snd (snd e) = QUEUED) log)"

definition left_queue :: "string \<Rightarrow> ProfileEntry list \<Rightarrow> TUniqueId \<Rightarrow> bool" where
  "left_queue pool log i =
     ((pool, i, ADMIT_QUEUED) \<in> set log \<or> (pool, i, CANCELLED_IN_QUEUE) \<in> set log
      \<or> (pool, i, TIME_OUT) \<in> set log)"

definition queued_before :: "TUniqueId \<Rightarrow> TUniqueId \<Rightarrow> TUniqueId list \<Rightarrow> bool" where
  "queued_before a b ids = (a \<in> set (takeWhile (\<lambda>i. i \<noteq> b) ids) \<and> b \<in> set ids)"

text \<open>
  The agreement between the queue of a pool and the profile log, used to follow
  the queue through a run. A request is admitted in its turn when it was queued
  and every request queued before it has left the queue. The queue matches the
  log when it holds, in the order of their queueing, the queued requests that
  have not left.
\<close>

definition admitted_in_turn :: "string \<Rightarrow> ProfileEntry list \<Rightarrow> TUniqueId \<Rightarrow> bool" where
  "admitted_in_turn pool log b =
     (b \<in> set (queued pool log)
      \<and> (\<forall>a \<in> set (takeWhile (\<lambda>i. i \<noteq> b) (queued pool log)). left_queue pool log a))"

definition admissions_in_turn :: "string \<Rightarrow> ProfileEntry list \<Rightarrow> bool" where
  "admissions_in_turn pool log =
     (\<forall>xs b ys. log = xs @ (pool, b, ADMIT_QUEUED) # ys \<longrightarrow> admitted_in_turn pool xs b)"

definition queue_matches_log :: "string \<Rightarrow> QueueNode list \<Rightarrow> ProfileEntry list \<Rightarrow> bool" where
  "queue_matches_log pool queue log =
     (map (\<lambda>node. query_id (schedule node)) queue
        = filter (\<lambda>i. \<not> left_queue pool log i) (queued pool log)
      \<and> (\<forall>i. left_queue pool log i \<longrightarrow> i \<in> set (queued pool log)))"

definition fifo_inv :: "string \<Rightarrow> (string \<Rightarrow> QueueNode list) \<Rightarrow> ProfileEntry list \<Rightarrow> bool" where
  "fifo_inv pool queues log =
     (distinct (queued pool log) \<longrightarrow>
        queue_matches_log pool (queues pool) log \<and> admissions_in_turn pool log)"

section \<open>A concrete request\<close>

text \<open>
  A machine with 1000 bytes of physical memory whose buffer pool asks for 75
  bytes more than the reservation, a pool whose queries run between 200 and 500
  bytes, and a request on two backends with an estimate of 100 bytes, a largest
  initial reservation of 50 bytes and no memory limit in its options.
\<close>

abbreviation small_machine :: Platform where
  "small_machine \<equiv> \<lparr>physical_mem = 1000,
     GetMinMemLimitFromReservation = (\<lambda>r. r + 75), DCHECK_IS_ON = True\<rparr>"

abbreviation bounded_pool :: TPoolConfig where
  "bounded_pool \<equiv> \<lparr>max_requests = 4, max_queued = 10, max_mem_resources = 10000,
     queue_timeout_ms = 100, min_query_mem_limit = 200, max_query_mem_limit = 500,
     clamp_mem_limit_query_option = False\<rparr>"

abbreviation legacy_pool :: TPoolConfig where
  "legacy_pool \<equiv> \<lparr>max_requests = 4, max_queued = 10, max_mem_resources = 10000,
     queue_timeout_ms = 100, min_query_mem_limit = 0, max_query_mem_limit = 0,
     clamp_mem_limit_query_option = False\<rparr>"

abbreviation two_host_request :: QuerySchedule where
  "two_host_request \<equiv> \<lparr>query_id = (0, 1), request_pool = ''q1'',
     request = \<lparr>isset_per_host_mem_estimate = True, per_host_mem_estimate = 100\<rparr>,
     query_options = \<lparr>isset_mem_limit = False, mem_limit = 0\<rparr>,
     largest_min_reservation = 50,
     per_backend_exec_params = [(''host1'', 22000), (''host2'', 22000)],
     per_backend_mem_limit = 0, per_backend_mem_to_admit = 0\<rparr>"

text \<open>
  Decisions that accept every pool configuration, take the pool's limits as they
  are written and admit a request only from the queue; and the request above
  with its memory requirements derived for the bounded pool.
\<close>

abbreviation queue_first :: Decisions where
  "queue_first \<equiv> \<lparr>IsPoolConfigValidForCluster = (\<lambda>pool_cfg cluster_size. True),
     GetMaxMemForPool = (\<lambda>pool_cfg cluster_size. max_mem_resources pool_cfg),
     GetMaxQueuedForPool = (\<lambda>pool_cfg cluster_size. max_queued pool_cfg),
     CanAdmitRequest = (\<lambda>ctrl s pool_cfg cluster_size admit_from_queue. admit_from_queue)\<rparr>"

abbreviation two_host_request_200 :: QuerySchedule where
  "two_host_request_200 \<equiv> two_host_request\<lparr>per_backend_mem_limit := 200, per_backend_mem_to_admit := 200\<rparr>"

text \<open>
  Decisions that admit every request at once, a pool that is disabled, and a
  fresh controller after the caller of the first request has cancelled it.
\<close>

abbreviation admit_at_once :: Decisions where
  "admit_at_once \<equiv> \<lparr>IsPoolConfigValidForCluster = (\<lambda>pool_cfg cluster_size. True),
     GetMaxMemForPool = (\<lambda>pool_cfg cluster_size. max_mem_resources pool_cfg),
     GetMaxQueuedForPool = (\<lambda>pool_cfg cluster_size. max_queued pool_cfg),
     CanAdmitRequest = (\<lambda>ctrl s pool_cfg cluster_size admit_from_queue. True)\<rparr>"

abbreviation disabled_pool :: TPoolConfig where
  "disabled_pool \<equiv> \<lparr>max_requests = 0, max_queued = 10, max_mem_resources = 10000,
     queue_timeout_ms = 100, min_query_mem_limit = 200, max_query_mem_limit = 500,
     clamp_mem_limit_query_option = False\<rparr>"

abbreviation cancelled_before :: AdmissionController where
  "cancelled_before \<equiv> set_outcome (0, 1) CANCELLED AdmissionController_init"

text \<open>
  A second request to the same pool, and a run in which both requests are queued
  and the dequeue thread then makes up to two attempts on the pool.
\<close>

abbreviation second_request :: QuerySchedule where
  "second_request \<equiv> \<lparr>query_id = (0, 2), request_pool = ''q1'',
     request = \<lparr>isset_per_host_mem_estimate = True, per_host_mem_estimate = 100\<rparr>,
     query_options = \<lparr>isset_mem_limit = False, mem_limit = 0\<rparr>,
     largest_min_reservation = 50,
     per_backend_exec_params = [(''host1'', 22000), (''host2'', 22000)],
     per_backend_mem_limit = 0, per_backend_mem_to_admit = 0\<rparr>"

abbreviation two_queued_then_dequeued :: "Event list" where
  "two_queued_then_dequeued \<equiv>
     [Ev_Submit bounded_pool 1 two_host_request, Ev_Submit bounded_pool 1 second_request,
      Ev_Dequeue ''q1'' bounded_pool 1 2]"

section \<open>Signed reading of the comparisons\<close>

lemma sint_max64: "sint (max64 a b) = max (sint a) (sint b)"
  by (simp add: max64_def word_sless_alt max_def)

lemma sint_min64: "sint (min64 a b) = min (sint a) (sint b)"
  by (simp add: min64_def word_sless_alt min_def)

section \<open>Effective memory reserved\<close>

text \<open>
  C1. For every pool, the effective memory reserved is the larger of the
  aggregate memory reserved and the locally admitted memory, read as signed
  64-bit values: it is one of the two, and it is the sum of the two only when the
  smaller one is zero.
\<close>

theorem EffectiveMemReserved_is_max:
  "sint (EffectiveMemReserved ps) = max (sint (agg_mem_reserved ps)) (sint (local_mem_admitted ps))
   \<and> (EffectiveMemReserved ps = agg_mem_reserved ps \<or> EffectiveMemReserved ps = local_mem_admitted ps)
   \<and> ((EffectiveMemReserved ps = agg_mem_reserved ps + local_mem_admitted ps)
        = (if agg_mem_reserved ps <s local_mem_admitted ps
           then agg_mem_reserved ps = 0 else local_mem_admitted ps = 0))"
proof (intro conjI)
  show "sint (EffectiveMemReserved ps)
        = max (sint (agg_mem_reserved ps)) (sint (local_mem_admitted ps))"
    by (simp add: EffectiveMemReserved_def sint_max64)
  show "EffectiveMemReserved ps = agg_mem_reserved ps
        \<or> EffectiveMemReserved ps = local_mem_admitted ps"
    by (simp add: EffectiveMemReserved_def max64_def)
  show "(EffectiveMemReserved ps = agg_mem_reserved ps + local_mem_admitted ps)
        = (if agg_mem_reserved ps <s local_mem_admitted ps
           then agg_mem_reserved ps = 0 else local_mem_admitted ps = 0)"
    by (auto simp add: EffectiveMemReserved_def max64_def)
qed

section \<open>What each block of UpdateMemoryRequirements computes\<close>

lemma start_mem_to_admit_eq:
  "start_mem_to_admit pf pool_cfg s =
     (if has_query_option s
      then Some (s\<lparr>per_backend_mem_to_admit := mem_limit (query_options s)\<rparr>)
      else if DCHECK_IS_ON pf \<and> \<not> isset_per_host_mem_estimate (request s) then None
      else Some (s\<lparr>per_backend_mem_to_admit :=
             (if mimic_old_behaviour pool_cfg then per_host_mem_estimate (request s)
              else max64 (per_host_mem_estimate (request s))
                     (GetMinMemLimitFromReservation pf (largest_min_reservation s)))\<rparr>))"
  by (simp add: start_mem_to_admit_def has_query_option_def GetPerHostMemoryEstimate_def Let_def)

lemma clamp_to_pool_limits_to_admit:
  "per_backend_mem_to_admit (clamp_to_pool_limits pool_cfg h s) =
     (if \<not> h \<or> clamp_mem_limit_query_option pool_cfg
      then (let a = (if 0 <s min_query_mem_limit pool_cfg
                     then max64 (per_backend_mem_to_admit s) (min_query_mem_limit pool_cfg)
                     else per_backend_mem_to_admit s)
            in if 0 <s max_query_mem_limit pool_cfg
               then min64 a (max_query_mem_limit pool_cfg) else a)
      else per_backend_mem_to_admit s)"
  by (simp add: clamp_to_pool_limits_def Let_def)

lemma clamp_to_pool_limits_mimic:
  "mimic_old_behaviour pool_cfg \<Longrightarrow> clamp_to_pool_limits pool_cfg h s = s"
  by (simp add: clamp_to_pool_limits_def mimic_old_behaviour_def Let_def)

lemma UpdateMemoryRequirements_to_admit:
  "UpdateMemoryRequirements pf pool_cfg s = Some s' \<Longrightarrow>
   \<exists>s1. start_mem_to_admit pf pool_cfg s = Some s1
     \<and> per_backend_mem_to_admit s' =
         min64 (per_backend_mem_to_admit (clamp_to_pool_limits pool_cfg (has_query_option s) s1))
           (physical_mem pf)"
  by (auto simp add: UpdateMemoryRequirements_def set_per_backend_mem_limit_def
      cap_at_physical_mem_def split: option.splits)

lemma UpdateMemoryRequirements_returns:
  "(\<exists>s'. UpdateMemoryRequirements pf pool_cfg s = Some s') =
   (has_query_option s \<or> \<not> DCHECK_IS_ON pf \<or> isset_per_host_mem_estimate (request s))"
  by (auto simp add: UpdateMemoryRequirements_def start_mem_to_admit_eq split: option.splits)

section \<open>The starting value\<close>

text \<open>
  C2. Whenever the call gets past its \<open>DCHECK\<close> it returns, and the value that
  the later blocks work on starts as follows. With a memory limit in the query
  options (set and greater than zero) it is that limit. Otherwise it is the
  planner's per-host estimate, and when the pool's minimum and maximum query
  memory limits are not both zero it is raised to the minimum memory limit
  derived from the largest initial reservation: the larger of the two.
\<close>

theorem UpdateMemoryRequirements_start:
  assumes "has_query_option s \<or> \<not> DCHECK_IS_ON pf \<or> isset_per_host_mem_estimate (request s)"
  shows "\<exists>s1 s'. start_mem_to_admit pf pool_cfg s = Some s1
     \<and> UpdateMemoryRequirements pf pool_cfg s = Some s'
     \<and> s' = set_per_backend_mem_limit pool_cfg (has_query_option s)
               (cap_at_physical_mem pf (clamp_to_pool_limits pool_cfg (has_query_option s) s1))
     \<and> (has_query_option s \<longrightarrow>
           per_backend_mem_to_admit s1 = mem_limit (query_options s))
     \<and> (\<not> has_query_option s \<and> mimic_old_behaviour pool_cfg \<longrightarrow>
           per_backend_mem_to_admit s1 = per_host_mem_estimate (request s))
     \<and> (\<not> has_query_option s \<and> \<not> mimic_old_behaviour pool_cfg \<longrightarrow>
           sint (per_backend_mem_to_admit s1) =
             max (sint (per_host_mem_estimate (request s)))
                 (sint (GetMinMemLimitFromReservation pf (largest_min_reservation s)))
           \<and> GetMinMemLimitFromReservation pf (largest_min_reservation s)
               \<le>s per_backend_mem_to_admit s1)"
proof (cases "has_query_option s")
  case True
  then show ?thesis
    by (simp add: UpdateMemoryRequirements_def start_mem_to_admit_eq)
next
  case False
  with assms have ok: "\<not> (DCHECK_IS_ON pf \<and> \<not> isset_per_host_mem_estimate (request s))"
    by blast
  show ?thesis
  proof (cases "mimic_old_behaviour pool_cfg")
    case True
    with False ok show ?thesis
      by (simp add: UpdateMemoryRequirements_def start_mem_to_admit_eq)
  next
    case nomimic: False
    with False ok show ?thesis
      by (simp add: UpdateMemoryRequirements_def start_mem_to_admit_eq sint_max64 word_sle_eq)
  qed
qed

theorem UpdateMemoryRequirements_start_witness:
  "isset_per_host_mem_estimate (request two_host_request)
   \<and> \<not> has_query_option two_host_request
   \<and> \<not> mimic_old_behaviour bounded_pool
   \<and> (\<exists>s1 s'. start_mem_to_admit small_machine bounded_pool two_host_request = Some s1
         \<and> UpdateMemoryRequirements small_machine bounded_pool two_host_request = Some s'
         \<and> sint (per_backend_mem_to_admit s1) = 125
         \<and> per_backend_mem_to_admit s' = 200)"
  using UpdateMemoryRequirements_start [of two_host_request small_machine bounded_pool]
  by (simp add: has_query_option_def mimic_old_behaviour_def set_per_backend_mem_limit_def
      cap_at_physical_mem_def clamp_to_pool_limits_def start_mem_to_admit_eq max64_def min64_def
      word_sless_alt Let_def)

section \<open>The pool's bounds\<close>

lemma clamp_to_pool_limits_sint:
  "\<not> h \<or> clamp_mem_limit_query_option pool_cfg \<Longrightarrow>
   sint (per_backend_mem_to_admit (clamp_to_pool_limits pool_cfg h s)) =
     (let a = (if 0 < sint (min_query_mem_limit pool_cfg)
               then max (sint (per_backend_mem_to_admit s)) (sint (min_query_mem_limit pool_cfg))
               else sint (per_backend_mem_to_admit s))
      in if 0 < sint (max_query_mem_limit pool_cfg)
         then min a (sint (max_query_mem_limit pool_cfg)) else a)"
  by (simp add: clamp_to_pool_limits_to_admit sint_max64 sint_min64 word_sless_alt Let_def)

lemma clamp_to_pool_limits_unchanged:
  "(0 <s min_query_mem_limit pool_cfg \<longrightarrow> min_query_mem_limit pool_cfg \<le>s per_backend_mem_to_admit s)
   \<Longrightarrow> (0 <s max_query_mem_limit pool_cfg \<longrightarrow> per_backend_mem_to_admit s \<le>s max_query_mem_limit pool_cfg)
   \<Longrightarrow> clamp_to_pool_limits pool_cfg h s = s"
  by (auto simp add: clamp_to_pool_limits_def max64_def min64_def word_sless_alt word_sle_eq Let_def)

lemma clamp_to_pool_limits_off:
  "h \<Longrightarrow> \<not> clamp_mem_limit_query_option pool_cfg \<Longrightarrow> clamp_to_pool_limits pool_cfg h s = s"
  by (simp add: clamp_to_pool_limits_def)

text \<open>
  C3. The pool's bounds are applied exactly when the request has no memory limit
  in its options or the pool's \<open>clamp_mem_limit_query_option\<close> is true. Then the
  value is raised to \<open>min_query_mem_limit\<close> when that is greater than zero, and
  after that lowered to \<open>max_query_mem_limit\<close> when that is greater than zero: it
  ends at most the maximum, at least the minimum when the two bounds are
  consistent, and unchanged when it was within the bounds that are set. With a
  memory limit in the options and the clamp option false the block changes
  nothing.
\<close>

theorem UpdateMemoryRequirements_clamp:
  assumes "has_query_option s \<or> \<not> DCHECK_IS_ON pf \<or> isset_per_host_mem_estimate (request s)"
  shows "\<exists>s1 s2 s'. start_mem_to_admit pf pool_cfg s = Some s1
     \<and> s2 = clamp_to_pool_limits pool_cfg (has_query_option s) s1
     \<and> UpdateMemoryRequirements pf pool_cfg s = Some s'
     \<and> per_backend_mem_to_admit s' = min64 (per_backend_mem_to_admit s2) (physical_mem pf)
     \<and> (has_query_option s \<and> \<not> clamp_mem_limit_query_option pool_cfg \<longrightarrow> s2 = s1)
     \<and> (\<not> has_query_option s \<or> clamp_mem_limit_query_option pool_cfg \<longrightarrow>
           sint (per_backend_mem_to_admit s2) =
             (let a = (if 0 < sint (min_query_mem_limit pool_cfg)
                       then max (sint (per_backend_mem_to_admit s1)) (sint (min_query_mem_limit pool_cfg))
                       else sint (per_backend_mem_to_admit s1))
              in if 0 < sint (max_query_mem_limit pool_cfg)
                 then min a (sint (max_query_mem_limit pool_cfg)) else a)
           \<and> (0 <s max_query_mem_limit pool_cfg \<longrightarrow>
                 per_backend_mem_to_admit s2 \<le>s max_query_mem_limit pool_cfg)
           \<and> (0 <s min_query_mem_limit pool_cfg
                \<and> (0 <s max_query_mem_limit pool_cfg \<longrightarrow>
                      min_query_mem_limit pool_cfg \<le>s max_query_mem_limit pool_cfg) \<longrightarrow>
                 min_query_mem_limit pool_cfg \<le>s per_backend_mem_to_admit s2)
           \<and> ((0 <s min_query_mem_limit pool_cfg \<longrightarrow>
                   min_query_mem_limit pool_cfg \<le>s per_backend_mem_to_admit s1)
                \<and> (0 <s max_query_mem_limit pool_cfg \<longrightarrow>
                   per_backend_mem_to_admit s1 \<le>s max_query_mem_limit pool_cfg) \<longrightarrow>
                 s2 = s1))"
proof -
  from assms obtain s' where s': "UpdateMemoryRequirements pf pool_cfg s = Some s'"
    using UpdateMemoryRequirements_returns [of pf pool_cfg s] by blast
  then obtain s1 where s1: "start_mem_to_admit pf pool_cfg s = Some s1"
    and fin: "per_backend_mem_to_admit s' =
       min64 (per_backend_mem_to_admit (clamp_to_pool_limits pool_cfg (has_query_option s) s1))
         (physical_mem pf)"
    using UpdateMemoryRequirements_to_admit by blast
  define s2 where "s2 = clamp_to_pool_limits pool_cfg (has_query_option s) s1"
  have off: "has_query_option s \<and> \<not> clamp_mem_limit_query_option pool_cfg \<longrightarrow> s2 = s1"
    by (simp add: s2_def clamp_to_pool_limits_off)
  have on: "sint (per_backend_mem_to_admit s2) =
             (let a = (if 0 < sint (min_query_mem_limit pool_cfg)
                       then max (sint (per_backend_mem_to_admit s1)) (sint (min_query_mem_limit pool_cfg))
                       else sint (per_backend_mem_to_admit s1))
              in if 0 < sint (max_query_mem_limit pool_cfg)
                 then min a (sint (max_query_mem_limit pool_cfg)) else a)"
    if "\<not> has_query_option s \<or> clamp_mem_limit_query_option pool_cfg"
    using that unfolding s2_def by (rule clamp_to_pool_limits_sint)
  have upper: "per_backend_mem_to_admit s2 \<le>s max_query_mem_limit pool_cfg"
    if "\<not> has_query_option s \<or> clamp_mem_limit_query_option pool_cfg"
      and "0 <s max_query_mem_limit pool_cfg"
    using on [OF that(1)] that(2) by (simp add: word_sle_eq word_sless_alt Let_def)
  have lower: "min_query_mem_limit pool_cfg \<le>s per_backend_mem_to_admit s2"
    if "\<not> has_query_option s \<or> clamp_mem_limit_query_option pool_cfg"
      and "0 <s min_query_mem_limit pool_cfg"
      and "0 <s max_query_mem_limit pool_cfg \<longrightarrow>
             min_query_mem_limit pool_cfg \<le>s max_query_mem_limit pool_cfg"
    using on [OF that(1)] that(2,3) by (auto simp add: word_sle_eq word_sless_alt Let_def)
  have same: "s2 = s1"
    if "0 <s min_query_mem_limit pool_cfg \<longrightarrow>
          min_query_mem_limit pool_cfg \<le>s per_backend_mem_to_admit s1"
      and "0 <s max_query_mem_limit pool_cfg \<longrightarrow>
          per_backend_mem_to_admit s1 \<le>s max_query_mem_limit pool_cfg"
    unfolding s2_def using that by (rule clamp_to_pool_limits_unchanged)
  show ?thesis
  proof (intro exI conjI impI)
    show "start_mem_to_admit pf pool_cfg s = Some s1" by (rule s1)
    show "s2 = clamp_to_pool_limits pool_cfg (has_query_option s) s1" by (rule s2_def)
    show "UpdateMemoryRequirements pf pool_cfg s = Some s'" by (rule s')
    show "per_backend_mem_to_admit s' = min64 (per_backend_mem_to_admit s2) (physical_mem pf)"
      using fin by (simp add: s2_def)
    show "s2 = s1" if "has_query_option s \<and> \<not> clamp_mem_limit_query_option pool_cfg"
      using off that by blast
  qed (use on upper lower same in blast)+
qed

theorem UpdateMemoryRequirements_clamp_witness:
  "isset_per_host_mem_estimate (request two_host_request)
   \<and> (\<exists>s1 s2 s'. start_mem_to_admit small_machine bounded_pool two_host_request = Some s1
         \<and> s2 = clamp_to_pool_limits bounded_pool (has_query_option two_host_request) s1
         \<and> UpdateMemoryRequirements small_machine bounded_pool two_host_request = Some s'
         \<and> per_backend_mem_to_admit s1 = 125
         \<and> per_backend_mem_to_admit s2 = 200
         \<and> per_backend_mem_to_admit s' = 200
         \<and> min_query_mem_limit bounded_pool \<le>s per_backend_mem_to_admit s2
         \<and> per_backend_mem_to_admit s2 \<le>s max_query_mem_limit bounded_pool)"
  using UpdateMemoryRequirements_clamp [of two_host_request small_machine bounded_pool]
  by (simp add: has_query_option_def start_mem_to_admit_eq mimic_old_behaviour_def
      clamp_to_pool_limits_def max64_def min64_def word_sless_alt word_sle_eq Let_def)

section \<open>The physical memory\<close>

text \<open>
  C4. Whenever the call returns, the per-backend memory to admit is at most the
  physical memory of the machine, whatever the options and the pool say: the last
  update of the value is the minimum with \<open>MemInfo::physical_mem()\<close>.
\<close>

theorem UpdateMemoryRequirements_physical_mem:
  assumes "has_query_option s \<or> \<not> DCHECK_IS_ON pf \<or> isset_per_host_mem_estimate (request s)"
  shows "\<exists>s1 s'. start_mem_to_admit pf pool_cfg s = Some s1
     \<and> UpdateMemoryRequirements pf pool_cfg s = Some s'
     \<and> per_backend_mem_to_admit s' =
         min64 (per_backend_mem_to_admit (clamp_to_pool_limits pool_cfg (has_query_option s) s1))
           (physical_mem pf)
     \<and> per_backend_mem_to_admit s' \<le>s physical_mem pf"
proof -
  from assms obtain s' where s': "UpdateMemoryRequirements pf pool_cfg s = Some s'"
    using UpdateMemoryRequirements_returns [of pf pool_cfg s] by blast
  then obtain s1 where s1: "start_mem_to_admit pf pool_cfg s = Some s1"
    and fin: "per_backend_mem_to_admit s' =
       min64 (per_backend_mem_to_admit (clamp_to_pool_limits pool_cfg (has_query_option s) s1))
         (physical_mem pf)"
    using UpdateMemoryRequirements_to_admit by blast
  have "sint (per_backend_mem_to_admit s') \<le> sint (physical_mem pf)"
    by (simp add: fin sint_min64)
  then have "per_backend_mem_to_admit s' \<le>s physical_mem pf"
    by (simp add: word_sle_eq)
  with s1 s' fin show ?thesis by blast
qed

theorem UpdateMemoryRequirements_physical_mem_witness:
  "has_query_option (two_host_request\<lparr>query_options := \<lparr>isset_mem_limit = True, mem_limit = 5000\<rparr>\<rparr>)
   \<and> (\<exists>s'. UpdateMemoryRequirements small_machine bounded_pool
           (two_host_request\<lparr>query_options := \<lparr>isset_mem_limit = True, mem_limit = 5000\<rparr>\<rparr>) = Some s'
         \<and> per_backend_mem_to_admit s' = 1000
         \<and> per_backend_mem_to_admit s' \<le>s physical_mem small_machine)"
  using UpdateMemoryRequirements_physical_mem
    [of "two_host_request\<lparr>query_options := \<lparr>isset_mem_limit = True, mem_limit = 5000\<rparr>\<rparr>"
        small_machine bounded_pool]
  by (simp add: has_query_option_def start_mem_to_admit_eq
      clamp_to_pool_limits_def min64_def word_sless_alt word_sle_eq Let_def)

section \<open>The enforced limit\<close>

lemma UpdateMemoryRequirements_mem_limit:
  "UpdateMemoryRequirements pf pool_cfg s = Some s' \<Longrightarrow>
   per_backend_mem_limit s' =
     (if mimic_old_behaviour pool_cfg \<and> \<not> has_query_option s then - 1
      else per_backend_mem_to_admit s')"
  by (auto simp add: UpdateMemoryRequirements_def set_per_backend_mem_limit_def
      split: option.splits)

text \<open>
  C5. Whenever the call returns, \<open>per_backend_mem_limit\<close> is equal to
  \<open>per_backend_mem_to_admit\<close>, except when the pool's minimum and maximum query
  memory limits are both zero and the options hold no memory limit: then the
  limit is -1 (no limit), and the memory to admit keeps the derived value, the
  planner's estimate capped at the physical memory.
\<close>

theorem UpdateMemoryRequirements_limit:
  assumes "has_query_option s \<or> \<not> DCHECK_IS_ON pf \<or> isset_per_host_mem_estimate (request s)"
  shows "\<exists>s'. UpdateMemoryRequirements pf pool_cfg s = Some s'
     \<and> per_backend_mem_limit s' =
         (if min_query_mem_limit pool_cfg = 0 \<and> max_query_mem_limit pool_cfg = 0
             \<and> \<not> has_query_option s
          then - 1 else per_backend_mem_to_admit s')
     \<and> (min_query_mem_limit pool_cfg = 0 \<and> max_query_mem_limit pool_cfg = 0
          \<and> \<not> has_query_option s \<longrightarrow>
           per_backend_mem_to_admit s' =
             min64 (per_host_mem_estimate (request s)) (physical_mem pf))"
proof -
  from assms obtain s' where s': "UpdateMemoryRequirements pf pool_cfg s = Some s'"
    using UpdateMemoryRequirements_returns [of pf pool_cfg s] by blast
  have lim: "per_backend_mem_limit s' =
         (if min_query_mem_limit pool_cfg = 0 \<and> max_query_mem_limit pool_cfg = 0
             \<and> \<not> has_query_option s
          then - 1 else per_backend_mem_to_admit s')"
    using UpdateMemoryRequirements_mem_limit [OF s'] by (simp add: mimic_old_behaviour_def)
  have legacy: "per_backend_mem_to_admit s' =
             min64 (per_host_mem_estimate (request s)) (physical_mem pf)"
    if "min_query_mem_limit pool_cfg = 0 \<and> max_query_mem_limit pool_cfg = 0
          \<and> \<not> has_query_option s"
  proof -
    from that have m: "mimic_old_behaviour pool_cfg" and n: "\<not> has_query_option s"
      by (simp_all add: mimic_old_behaviour_def)
    from UpdateMemoryRequirements_to_admit [OF s'] obtain s1
      where s1: "start_mem_to_admit pf pool_cfg s = Some s1"
        and fin: "per_backend_mem_to_admit s' =
          min64 (per_backend_mem_to_admit (clamp_to_pool_limits pool_cfg (has_query_option s) s1))
            (physical_mem pf)"
      by blast
    from s1 m n have "per_backend_mem_to_admit s1 = per_host_mem_estimate (request s)"
      by (auto simp add: start_mem_to_admit_eq split: if_splits)
    with fin m show ?thesis
      by (simp add: clamp_to_pool_limits_mimic)
  qed
  from s' lim legacy show ?thesis by blast
qed

theorem UpdateMemoryRequirements_limit_witness:
  "isset_per_host_mem_estimate (request two_host_request)
   \<and> \<not> has_query_option two_host_request
   \<and> (\<exists>s'. UpdateMemoryRequirements small_machine legacy_pool two_host_request = Some s'
         \<and> per_backend_mem_limit s' = - 1
         \<and> per_backend_mem_to_admit s' = 100)
   \<and> (\<exists>s'. UpdateMemoryRequirements small_machine bounded_pool two_host_request = Some s'
         \<and> per_backend_mem_limit s' = 200
         \<and> per_backend_mem_to_admit s' = 200)"
  using UpdateMemoryRequirements_limit [of two_host_request small_machine legacy_pool]
    UpdateMemoryRequirements_limit [of two_host_request small_machine bounded_pool]
    UpdateMemoryRequirements_to_admit [of small_machine bounded_pool two_host_request]
  by (auto simp add: has_query_option_def start_mem_to_admit_eq mimic_old_behaviour_def
      clamp_to_pool_limits_def max64_def min64_def word_sless_alt Let_def)

section \<open>The memory charged to the cluster\<close>

lemma sint_mult_of_nat:
  "sint ((a :: int64) * of_nat n) = signed_take_bit 63 (sint a * int n)"
proof -
  have "sint (a * of_nat n) = signed_take_bit 63 (sint a * sint (of_nat n :: int64))"
    by (simp add: sint_word_ariths)
  also have "sint (of_nat n :: int64) = signed_take_bit 63 (int n)"
    by (simp add: signed_of_nat)
  also have "signed_take_bit 63 (sint a * signed_take_bit 63 (int n))
             = signed_take_bit 63 (sint a * int n)"
    using signed_take_bit_mult [of 63 "sint a" "signed_take_bit 63 (int n)"]
      signed_take_bit_mult [of 63 "sint a" "int n"]
    by simp
  finally show ?thesis .
qed

text \<open>
  C6. The memory charged to the cluster for a request is the per-backend memory
  to admit times the number of backends of the schedule. The product is taken on
  64 bits: it is the mathematical product whenever that fits a signed 64-bit
  integer.
\<close>

theorem GetClusterMemoryToAdmit_product:
  "GetClusterMemoryToAdmit s =
     per_backend_mem_to_admit s * of_nat (length (per_backend_exec_params s))
   \<and> sint (GetClusterMemoryToAdmit s) =
       signed_take_bit 63
         (sint (per_backend_mem_to_admit s) * int (length (per_backend_exec_params s)))
   \<and> (- (2 ^ 63) \<le> sint (per_backend_mem_to_admit s) * int (length (per_backend_exec_params s))
        \<and> sint (per_backend_mem_to_admit s) * int (length (per_backend_exec_params s)) < 2 ^ 63
       \<longrightarrow> sint (GetClusterMemoryToAdmit s) =
             sint (per_backend_mem_to_admit s) * int (length (per_backend_exec_params s)))"
  by (simp add: GetClusterMemoryToAdmit_def sint_mult_of_nat signed_take_bit_int_eq_self)

theorem GetClusterMemoryToAdmit_product_witness:
  "sint (GetClusterMemoryToAdmit (two_host_request\<lparr>per_backend_mem_to_admit := 200\<rparr>)) = 400"
  using GetClusterMemoryToAdmit_product [of "two_host_request\<lparr>per_backend_mem_to_admit := 200\<rparr>"]
  by simp

section \<open>A memory limit that is not positive\<close>

lemma UpdateMemoryRequirements_no_option:
  assumes "\<not> has_query_option s" and "\<not> has_query_option (s\<lparr>query_options := q\<rparr>)"
  shows "UpdateMemoryRequirements pf pool_cfg (s\<lparr>query_options := q\<rparr>)
         = map_option (\<lambda>r. r\<lparr>query_options := q\<rparr>) (UpdateMemoryRequirements pf pool_cfg s)"
  using assms
  by (simp add: UpdateMemoryRequirements_def start_mem_to_admit_eq
      set_per_backend_mem_limit_def cap_at_physical_mem_def clamp_to_pool_limits_def Let_def)

text \<open>
  C10. A memory limit that is set in the query options but is zero or negative
  counts as no limit at all. The call then does exactly what it does for the same
  request with the option unset, whatever value the unset field holds. It starts
  from the planner's estimate (raised to the reservation's minimum unless the
  pool's bounds are both zero), applies the pool's bounds whatever
  \<open>clamp_mem_limit_query_option\<close> says, and in a pool whose bounds are both zero
  sets the enforced limit to -1.
\<close>

theorem nonpositive_mem_limit_is_no_limit:
  assumes "isset_mem_limit (query_options s)" and "\<not> 0 <s mem_limit (query_options s)"
  shows "\<not> has_query_option s
     \<and> UpdateMemoryRequirements pf pool_cfg
           (s\<lparr>query_options := \<lparr>isset_mem_limit = False, mem_limit = m\<rparr>\<rparr>)
         = map_option (\<lambda>r. r\<lparr>query_options := \<lparr>isset_mem_limit = False, mem_limit = m\<rparr>\<rparr>)
             (UpdateMemoryRequirements pf pool_cfg s)
     \<and> (\<not> DCHECK_IS_ON pf \<or> isset_per_host_mem_estimate (request s) \<longrightarrow>
          (\<exists>s1 s2 s'. start_mem_to_admit pf pool_cfg s = Some s1
             \<and> s2 = clamp_to_pool_limits pool_cfg (has_query_option s) s1
             \<and> UpdateMemoryRequirements pf pool_cfg s = Some s'
             \<and> per_backend_mem_to_admit s1 =
                 (if mimic_old_behaviour pool_cfg then per_host_mem_estimate (request s)
                  else max64 (per_host_mem_estimate (request s))
                         (GetMinMemLimitFromReservation pf (largest_min_reservation s)))
             \<and> per_backend_mem_to_admit s2 =
                 (let a = (if 0 <s min_query_mem_limit pool_cfg
                           then max64 (per_backend_mem_to_admit s1) (min_query_mem_limit pool_cfg)
                           else per_backend_mem_to_admit s1)
                  in if 0 <s max_query_mem_limit pool_cfg
                     then min64 a (max_query_mem_limit pool_cfg) else a)
             \<and> per_backend_mem_to_admit s' = min64 (per_backend_mem_to_admit s2) (physical_mem pf)
             \<and> per_backend_mem_limit s' =
                 (if mimic_old_behaviour pool_cfg then - 1 else per_backend_mem_to_admit s')))"
proof -
  from assms have n: "\<not> has_query_option s"
    by (simp add: has_query_option_def)
  have n': "\<not> has_query_option (s\<lparr>query_options := \<lparr>isset_mem_limit = False, mem_limit = m\<rparr>\<rparr>)"
    by (simp add: has_query_option_def)
  have same: "UpdateMemoryRequirements pf pool_cfg
           (s\<lparr>query_options := \<lparr>isset_mem_limit = False, mem_limit = m\<rparr>\<rparr>)
         = map_option (\<lambda>r. r\<lparr>query_options := \<lparr>isset_mem_limit = False, mem_limit = m\<rparr>\<rparr>)
             (UpdateMemoryRequirements pf pool_cfg s)"
    using n n' by (rule UpdateMemoryRequirements_no_option)
  have path: "\<exists>s1 s2 s'. start_mem_to_admit pf pool_cfg s = Some s1
             \<and> s2 = clamp_to_pool_limits pool_cfg (has_query_option s) s1
             \<and> UpdateMemoryRequirements pf pool_cfg s = Some s'
             \<and> per_backend_mem_to_admit s1 =
                 (if mimic_old_behaviour pool_cfg then per_host_mem_estimate (request s)
                  else max64 (per_host_mem_estimate (request s))
                         (GetMinMemLimitFromReservation pf (largest_min_reservation s)))
             \<and> per_backend_mem_to_admit s2 =
                 (let a = (if 0 <s min_query_mem_limit pool_cfg
                           then max64 (per_backend_mem_to_admit s1) (min_query_mem_limit pool_cfg)
                           else per_backend_mem_to_admit s1)
                  in if 0 <s max_query_mem_limit pool_cfg
                     then min64 a (max_query_mem_limit pool_cfg) else a)
             \<and> per_backend_mem_to_admit s' = min64 (per_backend_mem_to_admit s2) (physical_mem pf)
             \<and> per_backend_mem_limit s' =
                 (if mimic_old_behaviour pool_cfg then - 1 else per_backend_mem_to_admit s')"
    if ok: "\<not> DCHECK_IS_ON pf \<or> isset_per_host_mem_estimate (request s)"
  proof -
    from ok obtain s' where s': "UpdateMemoryRequirements pf pool_cfg s = Some s'"
      using UpdateMemoryRequirements_returns [of pf pool_cfg s] by blast
    from UpdateMemoryRequirements_to_admit [OF s'] obtain s1
      where s1: "start_mem_to_admit pf pool_cfg s = Some s1"
        and fin: "per_backend_mem_to_admit s' =
          min64 (per_backend_mem_to_admit (clamp_to_pool_limits pool_cfg (has_query_option s) s1))
            (physical_mem pf)"
      by blast
    from s1 n have start: "per_backend_mem_to_admit s1 =
                 (if mimic_old_behaviour pool_cfg then per_host_mem_estimate (request s)
                  else max64 (per_host_mem_estimate (request s))
                         (GetMinMemLimitFromReservation pf (largest_min_reservation s)))"
      by (auto simp add: start_mem_to_admit_eq split: if_splits)
    have clamp: "per_backend_mem_to_admit (clamp_to_pool_limits pool_cfg (has_query_option s) s1) =
                 (let a = (if 0 <s min_query_mem_limit pool_cfg
                           then max64 (per_backend_mem_to_admit s1) (min_query_mem_limit pool_cfg)
                           else per_backend_mem_to_admit s1)
                  in if 0 <s max_query_mem_limit pool_cfg
                     then min64 a (max_query_mem_limit pool_cfg) else a)"
      using n by (simp add: clamp_to_pool_limits_to_admit)
    have lim: "per_backend_mem_limit s' =
                 (if mimic_old_behaviour pool_cfg then - 1 else per_backend_mem_to_admit s')"
      using UpdateMemoryRequirements_mem_limit [OF s'] n by simp
    from s1 s' start clamp fin lim show ?thesis by blast
  qed
  from n same path show ?thesis by blast
qed

theorem nonpositive_mem_limit_is_no_limit_witness:
  "isset_mem_limit (query_options (two_host_request\<lparr>query_options := \<lparr>isset_mem_limit = True, mem_limit = - 5\<rparr>\<rparr>))
   \<and> \<not> has_query_option (two_host_request\<lparr>query_options := \<lparr>isset_mem_limit = True, mem_limit = - 5\<rparr>\<rparr>)
   \<and> (\<exists>s' u'. UpdateMemoryRequirements small_machine legacy_pool
           (two_host_request\<lparr>query_options := \<lparr>isset_mem_limit = True, mem_limit = - 5\<rparr>\<rparr>) = Some s'
         \<and> UpdateMemoryRequirements small_machine legacy_pool two_host_request = Some u'
         \<and> per_backend_mem_to_admit s' = 100 \<and> per_backend_mem_to_admit u' = 100
         \<and> per_backend_mem_limit s' = - 1 \<and> per_backend_mem_limit u' = - 1)"
  using nonpositive_mem_limit_is_no_limit
    [of "two_host_request\<lparr>query_options := \<lparr>isset_mem_limit = True, mem_limit = - 5\<rparr>\<rparr>"
        small_machine legacy_pool 0]
  by (auto simp add: has_query_option_def mimic_old_behaviour_def word_sless_alt
      clamp_to_pool_limits_def min64_def Let_def)

section \<open>Submission for admission\<close>

lemma write_profile_fields [simp]:
  "request_queue_map (write_profile s r ctrl) = request_queue_map ctrl"
  "pool_stats (write_profile s r ctrl) = pool_stats ctrl"
  "host_mem_admitted (write_profile s r ctrl) = host_mem_admitted ctrl"
  "host_mem_reserved (write_profile s r ctrl) = host_mem_reserved ctrl"
  "admit_outcomes (write_profile s r ctrl) = admit_outcomes ctrl"
  "profile_log (write_profile s r ctrl) = profile_log ctrl @ [(request_pool s, query_id s, r)]"
  by (simp_all add: write_profile_def)

lemma set_outcome_fields [simp]:
  "request_queue_map (set_outcome i v ctrl) = request_queue_map ctrl"
  "pool_stats (set_outcome i v ctrl) = pool_stats ctrl"
  "host_mem_admitted (set_outcome i v ctrl) = host_mem_admitted ctrl"
  "host_mem_reserved (set_outcome i v ctrl) = host_mem_reserved ctrl"
  "admit_outcomes (set_outcome i v ctrl) = (admit_outcomes ctrl)(i := Some v)"
  "profile_log (set_outcome i v ctrl) = profile_log ctrl"
  by (simp_all add: set_outcome_def)

lemma AdmitQuery_fields [simp]:
  "request_queue_map (AdmitQuery s ctrl) = request_queue_map ctrl"
  "admit_outcomes (AdmitQuery s ctrl) = admit_outcomes ctrl"
  "profile_log (AdmitQuery s ctrl) = profile_log ctrl"
  "host_mem_reserved (AdmitQuery s ctrl) = host_mem_reserved ctrl"
  by (simp_all add: AdmitQuery_def UpdateHostMemAdmitted_def)

lemma ReleaseQuery_fields [simp]:
  "request_queue_map (ReleaseQuery s ctrl) = request_queue_map ctrl"
  "admit_outcomes (ReleaseQuery s ctrl) = admit_outcomes ctrl"
  "profile_log (ReleaseQuery s ctrl) = profile_log ctrl"
  "host_mem_reserved (ReleaseQuery s ctrl) = host_mem_reserved ctrl"
  by (simp_all add: ReleaseQuery_def UpdateHostMemAdmitted_def)

lemma submit_finish_pairs:
  "submit_finish s ctrl = (status, outcome, ctrl') \<Longrightarrow>
   outcome = Promise_Set (admit_outcomes ctrl (query_id s)) REJECTED_OR_TIMED_OUT
   \<and> ((status, outcome) = (Status_OK, ADMITTED)
      \<or> (status, outcome) = (Status_CANCELLED, CANCELLED)
      \<or> (status, outcome) = (Status_Expected Queue_Timed_Out, REJECTED_OR_TIMED_OUT))"
  by (auto simp add: submit_finish_def Let_def split: AdmissionOutcome.splits)

lemma submit_start_cases:
  assumes "UpdateMemoryRequirements pf pool_cfg s0 = Some s"
  shows "submit_start dc pf pool_cfg cluster_size s0 ctrl =
     (case RejectImmediately dc s pool_cfg cluster_size ctrl of
        Some reason \<Rightarrow>
          (case Promise_Set (admit_outcomes ctrl (query_id s)) REJECTED_OR_TIMED_OUT of
             REJECTED_OR_TIMED_OUT \<Rightarrow>
               Some (Returned (Status_Expected reason) REJECTED_OR_TIMED_OUT, s,
                     write_profile s REJECTED
                       (set_outcome (query_id s) REJECTED_OR_TIMED_OUT ctrl))
           | CANCELLED \<Rightarrow> Some (Returned Status_CANCELLED CANCELLED, s, ctrl)
           | ADMITTED \<Rightarrow> None)
      | None \<Rightarrow>
          if CanAdmitRequest dc ctrl s pool_cfg cluster_size False
          then
            (case Promise_Set (admit_outcomes ctrl (query_id s)) ADMITTED of
               ADMITTED \<Rightarrow>
                 Some (Returned Status_OK ADMITTED, s,
                       write_profile s ADMIT_IMMEDIATELY
                         (AdmitQuery s (set_outcome (query_id s) ADMITTED ctrl)))
             | CANCELLED \<Rightarrow>
                 Some (Returned Status_CANCELLED CANCELLED, s,
                       ReleaseQuery s (AdmitQuery s ctrl))
             | REJECTED_OR_TIMED_OUT \<Rightarrow> None)
          else Some (Blocked, s,
                     write_profile s QUEUED
                       (ctrl\<lparr>request_queue_map := (request_queue_map ctrl)
                               (request_pool s :=
                                  request_queue_map ctrl (request_pool s) @ [\<lparr>schedule = s\<rparr>]),
                             pool_stats := (pool_stats ctrl)
                               (request_pool s :=
                                  PoolStats_Queue (pool_stats ctrl (request_pool s)))\<rparr>)))"
  using assms by (simp add: submit_start_def)

lemma two_host_request_requirements:
  "UpdateMemoryRequirements small_machine bounded_pool two_host_request = Some two_host_request_200"
  by (simp add: UpdateMemoryRequirements_def start_mem_to_admit_eq has_query_option_def
      mimic_old_behaviour_def set_per_backend_mem_limit_def cap_at_physical_mem_def
      clamp_to_pool_limits_def max64_def min64_def word_sless_alt Let_def)

lemma two_host_request_not_rejected:
  "RejectImmediately queue_first two_host_request_200 bounded_pool 1 AdmissionController_init = None"
  by (simp add: RejectImmediately_def PoolDisabled_def CanAccommodateMaxInitialReservation_def
      GetClusterMemoryToAdmit_def AdmissionController_init_def word_sless_alt)

lemma PoolStats_Release_Admit: "PoolStats_Release s (PoolStats_Admit s ps) = ps"
  by (simp add: PoolStats_Release_def PoolStats_Admit_def)

lemma fold_host_mem:
  "fold (\<lambda>h m. m(h := m h + x)) hs m k = m k + x * of_nat (count_list hs k)"
  for x :: int64
  by (induction hs arbitrary: m) (simp_all add: algebra_simps)

lemma fold_host_mem_minus:
  "fold (\<lambda>h m. m(h := m h - x)) hs m k = m k - x * of_nat (count_list hs k)"
  for x :: int64
  by (induction hs arbitrary: m) (simp_all add: algebra_simps)

lemma ReleaseQuery_AdmitQuery:
  "pool_stats (ReleaseQuery s (AdmitQuery s ctrl)) = pool_stats ctrl"
  "host_mem_admitted (ReleaseQuery s (AdmitQuery s ctrl)) = host_mem_admitted ctrl"
proof -
  show "pool_stats (ReleaseQuery s (AdmitQuery s ctrl)) = pool_stats ctrl"
    by (simp add: ReleaseQuery_def AdmitQuery_def UpdateHostMemAdmitted_def
        PoolStats_Release_Admit)
  have "host_mem_admitted (ReleaseQuery s (AdmitQuery s ctrl)) k = host_mem_admitted ctrl k" for k
    by (simp add: ReleaseQuery_def AdmitQuery_def UpdateHostMemAdmitted_def fold_host_mem
        fold_host_mem_minus)
  then show "host_mem_admitted (ReleaseQuery s (AdmitQuery s ctrl)) = host_mem_admitted ctrl"
    by (rule ext)
qed

lemma submit_start_blocked:
  assumes "UpdateMemoryRequirements pf pool_cfg s0 = Some s"
    and "RejectImmediately dc s pool_cfg cluster_size ctrl = None"
    and "\<not> CanAdmitRequest dc ctrl s pool_cfg cluster_size False"
  shows "\<exists>ctrl1. submit_start dc pf pool_cfg cluster_size s0 ctrl = Some (Blocked, s, ctrl1)
     \<and> request_queue_map ctrl1 (request_pool s)
         = request_queue_map ctrl (request_pool s) @ [\<lparr>schedule = s\<rparr>]"
  using assms(2,3) by (simp add: submit_start_cases [OF assms(1)])

text \<open>
  C8. A submission whose memory requirements can be derived, and whose outcome
  signal is unset or was cancelled by the caller, returns one of three pairs of
  status and outcome: OK with \<open>ADMITTED\<close>, \<open>CANCELLED\<close> with \<open>CANCELLED\<close>, or a
  failed status with \<open>REJECTED_OR_TIMED_OUT\<close>. With the signal unset: if the
  request is to be rejected immediately, the call returns the reason of the
  rejection with \<open>REJECTED_OR_TIMED_OUT\<close> and leaves the queues, the pool
  statistics and the admitted memory of the hosts as they were; otherwise, if the
  request can be admitted, the call admits it and returns OK with \<open>ADMITTED\<close>.
  With the signal already cancelled, a request that would be rejected or admitted
  at once returns \<open>CANCELLED\<close> with \<open>CANCELLED\<close> instead, and the queues, the pool
  statistics, the admitted memory of the hosts, the signal and the profiles are
  as they were. In both cases a request that is neither rejected nor admitted at
  once is put at the tail of its pool's queue, and the call returns what the
  outcome signal resolves to: OK for \<open>ADMITTED\<close>, \<open>CANCELLED\<close> for \<open>CANCELLED\<close>,
  the timeout for \<open>REJECTED_OR_TIMED_OUT\<close>.
\<close>

theorem SubmitForAdmission_pairs:
  assumes "UpdateMemoryRequirements pf pool_cfg s0 = Some s"
    and "admit_outcomes ctrl (query_id s) = None
         \<or> admit_outcomes ctrl (query_id s) = Some CANCELLED"
  shows "\<exists>status outcome ctrl'.
      SubmitForAdmission dc pf pool_cfg cluster_size others s0 ctrl = Some (status, outcome, s, ctrl')
    \<and> ((status, outcome) = (Status_OK, ADMITTED)
       \<or> (status, outcome) = (Status_CANCELLED, CANCELLED)
       \<or> (\<exists>reason. (status, outcome) = (Status_Expected reason, REJECTED_OR_TIMED_OUT)))
    \<and> (\<forall>reason. admit_outcomes ctrl (query_id s) = None
          \<and> RejectImmediately dc s pool_cfg cluster_size ctrl = Some reason \<longrightarrow>
          status = Status_Expected reason \<and> outcome = REJECTED_OR_TIMED_OUT
          \<and> request_queue_map ctrl' = request_queue_map ctrl
          \<and> pool_stats ctrl' = pool_stats ctrl
          \<and> host_mem_admitted ctrl' = host_mem_admitted ctrl)
    \<and> (admit_outcomes ctrl (query_id s) = None
        \<and> RejectImmediately dc s pool_cfg cluster_size ctrl = None
        \<and> CanAdmitRequest dc ctrl s pool_cfg cluster_size False \<longrightarrow>
          status = Status_OK \<and> outcome = ADMITTED
          \<and> ctrl' = write_profile s ADMIT_IMMEDIATELY
                      (AdmitQuery s (set_outcome (query_id s) ADMITTED ctrl))
          \<and> request_queue_map ctrl' = request_queue_map ctrl)
    \<and> (admit_outcomes ctrl (query_id s) = Some CANCELLED
        \<and> (RejectImmediately dc s pool_cfg cluster_size ctrl \<noteq> None
           \<or> CanAdmitRequest dc ctrl s pool_cfg cluster_size False) \<longrightarrow>
          status = Status_CANCELLED \<and> outcome = CANCELLED
          \<and> request_queue_map ctrl' = request_queue_map ctrl
          \<and> pool_stats ctrl' = pool_stats ctrl
          \<and> host_mem_admitted ctrl' = host_mem_admitted ctrl
          \<and> admit_outcomes ctrl' = admit_outcomes ctrl
          \<and> profile_log ctrl' = profile_log ctrl)
    \<and> (RejectImmediately dc s pool_cfg cluster_size ctrl = None
        \<and> \<not> CanAdmitRequest dc ctrl s pool_cfg cluster_size False \<longrightarrow>
          (\<exists>ctrl1. submit_start dc pf pool_cfg cluster_size s0 ctrl = Some (Blocked, s, ctrl1)
             \<and> request_queue_map ctrl1 (request_pool s)
                 = request_queue_map ctrl (request_pool s) @ [\<lparr>schedule = s\<rparr>]
             \<and> submit_finish s (others ctrl1) = (status, outcome, ctrl')
             \<and> outcome = Promise_Set (admit_outcomes (others ctrl1) (query_id s))
                           REJECTED_OR_TIMED_OUT
             \<and> ((status, outcome) = (Status_OK, ADMITTED)
                \<or> (status, outcome) = (Status_CANCELLED, CANCELLED)
                \<or> (status, outcome) = (Status_Expected Queue_Timed_Out, REJECTED_OR_TIMED_OUT))))"
proof (cases "RejectImmediately dc s pool_cfg cluster_size ctrl")
  case (Some reason)
  from assms(2) show ?thesis
  proof
    assume "admit_outcomes ctrl (query_id s) = None"
    with Some show ?thesis
      by (simp add: SubmitForAdmission_def submit_start_cases [OF assms(1)] Promise_Set_def)
  next
    assume "admit_outcomes ctrl (query_id s) = Some CANCELLED"
    with Some show ?thesis
      by (simp add: SubmitForAdmission_def submit_start_cases [OF assms(1)] Promise_Set_def)
  qed
next
  case None
  show ?thesis
  proof (cases "CanAdmitRequest dc ctrl s pool_cfg cluster_size False")
    case True
    from assms(2) show ?thesis
    proof
      assume "admit_outcomes ctrl (query_id s) = None"
      with None True show ?thesis
        by (simp add: SubmitForAdmission_def submit_start_cases [OF assms(1)] Promise_Set_def)
    next
      assume "admit_outcomes ctrl (query_id s) = Some CANCELLED"
      with None True show ?thesis
        by (simp add: SubmitForAdmission_def submit_start_cases [OF assms(1)] Promise_Set_def
            ReleaseQuery_AdmitQuery)
    qed
  next
    case False
    from submit_start_blocked [OF assms(1) None False] obtain ctrl1 where
      start: "submit_start dc pf pool_cfg cluster_size s0 ctrl = Some (Blocked, s, ctrl1)"
      and q: "request_queue_map ctrl1 (request_pool s)
                 = request_queue_map ctrl (request_pool s) @ [\<lparr>schedule = s\<rparr>]"
      by blast
    obtain status outcome ctrl' where fin: "submit_finish s (others ctrl1) = (status, outcome, ctrl')"
      by (cases "submit_finish s (others ctrl1)") auto
    from start fin have whole:
      "SubmitForAdmission dc pf pool_cfg cluster_size others s0 ctrl = Some (status, outcome, s, ctrl')"
      by (simp add: SubmitForAdmission_def)
    from submit_finish_pairs [OF fin] None False whole start fin q show ?thesis
      by auto
  qed
qed

lemma two_host_request_requirements_disabled:
  "UpdateMemoryRequirements small_machine disabled_pool two_host_request = Some two_host_request_200"
  by (simp add: UpdateMemoryRequirements_def start_mem_to_admit_eq has_query_option_def
      mimic_old_behaviour_def set_per_backend_mem_limit_def cap_at_physical_mem_def
      clamp_to_pool_limits_def max64_def min64_def word_sless_alt Let_def)

theorem SubmitForAdmission_pairs_witness:
  "UpdateMemoryRequirements small_machine bounded_pool two_host_request = Some two_host_request_200
   \<and> admit_outcomes AdmissionController_init (query_id two_host_request_200) = None
   \<and> RejectImmediately queue_first two_host_request_200 bounded_pool 1 AdmissionController_init = None
   \<and> (\<exists>ctrl'. SubmitForAdmission queue_first small_machine bounded_pool 1
         (DequeuePool queue_first bounded_pool 1 ''q1'' 1) two_host_request AdmissionController_init
        = Some (Status_OK, ADMITTED, two_host_request_200, ctrl'))
   \<and> (\<exists>ctrl'. SubmitForAdmission queue_first small_machine bounded_pool 1
         (\<lambda>ctrl. ctrl) two_host_request AdmissionController_init
        = Some (Status_Expected Queue_Timed_Out, REJECTED_OR_TIMED_OUT, two_host_request_200, ctrl'))
   \<and> admit_outcomes cancelled_before (query_id two_host_request_200) = Some CANCELLED
   \<and> CanAdmitRequest admit_at_once cancelled_before two_host_request_200 bounded_pool 1 False
   \<and> (\<exists>ctrl'. SubmitForAdmission admit_at_once small_machine bounded_pool 1
         (\<lambda>ctrl. ctrl) two_host_request cancelled_before
        = Some (Status_CANCELLED, CANCELLED, two_host_request_200, ctrl'))"
proof -
  have unset: "admit_outcomes AdmissionController_init (query_id two_host_request_200) = None
      \<or> admit_outcomes AdmissionController_init (query_id two_host_request_200) = Some CANCELLED"
    by (simp add: AdmissionController_init_def)
  have cancelled: "admit_outcomes cancelled_before (query_id two_host_request_200) = None
      \<or> admit_outcomes cancelled_before (query_id two_host_request_200) = Some CANCELLED"
    by simp
  note admitted_later = SubmitForAdmission_pairs [OF two_host_request_requirements unset,
      where dc = queue_first and cluster_size = 1
        and others = "DequeuePool queue_first bounded_pool 1 ''q1'' 1"]
  note timed_out = SubmitForAdmission_pairs [OF two_host_request_requirements unset,
      where dc = queue_first and cluster_size = 1 and others = "\<lambda>ctrl. ctrl"]
  note lost = SubmitForAdmission_pairs [OF two_host_request_requirements cancelled,
      where dc = admit_at_once and cluster_size = 1 and others = "\<lambda>ctrl. ctrl"]
  from admitted_later timed_out lost two_host_request_requirements two_host_request_not_rejected
  show ?thesis
    by (auto simp add: submit_start_cases [OF two_host_request_requirements]
        RejectImmediately_def PoolDisabled_def CanAccommodateMaxInitialReservation_def
        GetClusterMemoryToAdmit_def word_sless_alt
        Promise_Set_def AdmissionController_init_def numeral_eq_Suc Let_def)
qed

theorem SubmitForAdmission_cancelled_before_counterexample:
  "run queue_first small_machine [Ev_Cancel (0, 1)] AdmissionController_init = Some cancelled_before
   \<and> RejectImmediately queue_first two_host_request_200 disabled_pool 1 cancelled_before
       = Some Pool_Disabled
   \<and> map_option (\<lambda>r. (fst r, fst (snd r)))
        (SubmitForAdmission queue_first small_machine disabled_pool 1 (\<lambda>ctrl. ctrl)
           two_host_request cancelled_before)
       = Some (Status_CANCELLED, CANCELLED)
   \<and> RejectImmediately admit_at_once two_host_request_200 bounded_pool 1 cancelled_before = None
   \<and> CanAdmitRequest admit_at_once cancelled_before two_host_request_200 bounded_pool 1 False
   \<and> map_option (\<lambda>r. (fst r, fst (snd r)))
        (SubmitForAdmission admit_at_once small_machine bounded_pool 1 (\<lambda>ctrl. ctrl)
           two_host_request cancelled_before)
       = Some (Status_CANCELLED, CANCELLED)"
  by (simp add: step_def SubmitForAdmission_def
      submit_start_cases [OF two_host_request_requirements]
      submit_start_cases [OF two_host_request_requirements_disabled]
      RejectImmediately_def PoolDisabled_def CanAccommodateMaxInitialReservation_def
      GetClusterMemoryToAdmit_def word_sless_alt
      Promise_Set_def AdmissionController_init_def)

section \<open>Admitted queries and their initial reservation\<close>

lemma two_host_request_admitted_from_queue:
  "\<exists>ctrl'. SubmitForAdmission queue_first small_machine bounded_pool 1
         (DequeuePool queue_first bounded_pool 1 ''q1'' 1) two_host_request AdmissionController_init
        = Some (Status_OK, ADMITTED, two_host_request_200, ctrl')"
  by (simp add: SubmitForAdmission_def submit_start_cases [OF two_host_request_requirements]
      RejectImmediately_def PoolDisabled_def CanAccommodateMaxInitialReservation_def
      GetClusterMemoryToAdmit_def word_sless_alt submit_finish_def
      Promise_Set_def AdmissionController_init_def Let_def)

text \<open>
  C7. Every query that a submission admits, at once or from the queue, has a
  per-backend memory to admit of at least its largest initial reservation,
  unless it went the legacy way (the pool's minimum and maximum query memory
  limits both zero and no memory limit in the options). Outside the legacy way
  the enforced limit is the same value, so it covers the reservation too.
\<close>

theorem admitted_covers_initial_reservation:
  assumes "SubmitForAdmission dc pf pool_cfg cluster_size others s0 ctrl
             = Some (status, ADMITTED, s, ctrl')"
    and "\<not> (mimic_old_behaviour pool_cfg \<and> \<not> has_query_option s0)"
  shows "UpdateMemoryRequirements pf pool_cfg s0 = Some s
    \<and> largest_min_reservation s = largest_min_reservation s0
    \<and> largest_min_reservation s0 \<le>s per_backend_mem_to_admit s
    \<and> largest_min_reservation s0 \<le>s per_backend_mem_limit s"
proof -
  from assms(1) obtain r ctrl1 where
    start: "submit_start dc pf pool_cfg cluster_size s0 ctrl = Some (r, s, ctrl1)"
    and r: "r = Returned status ADMITTED \<or> r = Blocked"
    by (auto simp add: SubmitForAdmission_def split: option.splits Submission.splits prod.splits)
  from start obtain u where u: "UpdateMemoryRequirements pf pool_cfg s0 = Some u"
    by (auto simp add: submit_start_def split: option.splits)
  from start r have s: "u = s" and rej: "RejectImmediately dc s pool_cfg cluster_size ctrl = None"
    by (auto simp add: submit_start_cases [OF u]
        split: option.splits if_splits AdmissionOutcome.splits)
  from rej have "CanAccommodateMaxInitialReservation s pool_cfg"
    by (auto simp add: RejectImmediately_def split: if_splits)
  then have le: "largest_min_reservation s \<le>s per_backend_mem_to_admit s"
    by (simp add: CanAccommodateMaxInitialReservation_def word_sless_alt word_sle_eq)
  from u s have same: "largest_min_reservation s = largest_min_reservation s0"
    by (auto simp add: UpdateMemoryRequirements_def start_mem_to_admit_eq
        set_per_backend_mem_limit_def cap_at_physical_mem_def clamp_to_pool_limits_def Let_def
        split: option.splits if_splits)
  from u s assms(2) have lim: "per_backend_mem_limit s = per_backend_mem_to_admit s"
    using UpdateMemoryRequirements_mem_limit [of pf pool_cfg s0 s] by auto
  from u s le same lim show ?thesis by simp
qed

theorem admitted_covers_initial_reservation_witness:
  "\<not> mimic_old_behaviour bounded_pool
   \<and> (\<exists>ctrl'. SubmitForAdmission queue_first small_machine bounded_pool 1
         (DequeuePool queue_first bounded_pool 1 ''q1'' 1) two_host_request AdmissionController_init
        = Some (Status_OK, ADMITTED, two_host_request_200, ctrl'))
   \<and> largest_min_reservation two_host_request \<le>s per_backend_mem_to_admit two_host_request_200
   \<and> largest_min_reservation two_host_request \<le>s per_backend_mem_limit two_host_request_200"
proof -
  have n: "\<not> (mimic_old_behaviour bounded_pool \<and> \<not> has_query_option two_host_request)"
    by (simp add: mimic_old_behaviour_def)
  from two_host_request_admitted_from_queue obtain ctrl' where
    a: "SubmitForAdmission queue_first small_machine bounded_pool 1
         (DequeuePool queue_first bounded_pool 1 ''q1'' 1) two_host_request AdmissionController_init
        = Some (Status_OK, ADMITTED, two_host_request_200, ctrl')"
    by blast
  from admitted_covers_initial_reservation [OF a n] a n show ?thesis
    by (auto simp add: mimic_old_behaviour_def)
qed

section \<open>The order of admissions from the queue\<close>

lemma queued_append:
  "queued pool (log @ [(q, i, r)]) = queued pool log @ (if q = pool \<and> r = QUEUED then [i] else [])"
  by (simp add: queued_def)

lemma queued_append2: "queued pool (xs @ ys) = queued pool xs @ queued pool ys"
  by (simp add: queued_def)

lemma left_queue_append:
  "left_queue pool (log @ [(q, i, r)]) j =
     (left_queue pool log j
      \<or> (q = pool \<and> i = j \<and> (r = ADMIT_QUEUED \<or> r = CANCELLED_IN_QUEUE \<or> r = TIME_OUT)))"
  by (auto simp add: left_queue_def)

lemma split_last_entry:
  "(log @ [e] = xs @ x # ys) = ((xs = log \<and> x = e \<and> ys = []) \<or> (\<exists>zs. ys = zs @ [e] \<and> log = xs @ x # zs))"
proof (cases ys rule: rev_cases)
  case Nil
  then show ?thesis by auto
next
  case (snoc zs z)
  then show ?thesis by auto
qed

lemma admissions_in_turn_append:
  "admissions_in_turn pool (log @ [e]) =
   (admissions_in_turn pool log
    \<and> (\<forall>b. e = (pool, b, ADMIT_QUEUED) \<longrightarrow> admitted_in_turn pool log b))"
proof
  assume h: "admissions_in_turn pool (log @ [e])"
  have "admitted_in_turn pool xs b" if "log = xs @ (pool, b, ADMIT_QUEUED) # ys" for xs b ys
  proof -
    from that have "log @ [e] = xs @ (pool, b, ADMIT_QUEUED) # (ys @ [e])" by simp
    with h show ?thesis unfolding admissions_in_turn_def by blast
  qed
  moreover have "admitted_in_turn pool log b" if "e = (pool, b, ADMIT_QUEUED)" for b
  proof -
    from that have "log @ [e] = log @ (pool, b, ADMIT_QUEUED) # []" by simp
    with h show ?thesis unfolding admissions_in_turn_def by blast
  qed
  ultimately show "admissions_in_turn pool log
      \<and> (\<forall>b. e = (pool, b, ADMIT_QUEUED) \<longrightarrow> admitted_in_turn pool log b)"
    unfolding admissions_in_turn_def by blast
next
  assume h: "admissions_in_turn pool log
      \<and> (\<forall>b. e = (pool, b, ADMIT_QUEUED) \<longrightarrow> admitted_in_turn pool log b)"
  show "admissions_in_turn pool (log @ [e])"
    unfolding admissions_in_turn_def
  proof (intro allI impI)
    fix xs b ys
    assume "log @ [e] = xs @ (pool, b, ADMIT_QUEUED) # ys"
    then consider "xs = log" "e = (pool, b, ADMIT_QUEUED)"
      | zs where "log = xs @ (pool, b, ADMIT_QUEUED) # zs"
      unfolding split_last_entry by blast
    then show "admitted_in_turn pool xs b"
    proof cases
      case 1
      with h show ?thesis by blast
    next
      case 2
      with h show ?thesis unfolding admissions_in_turn_def by blast
    qed
  qed
qed

lemma admissions_in_turn_append_other:
  "e \<noteq> (pool, fst (snd e), ADMIT_QUEUED) \<Longrightarrow>
   admissions_in_turn pool (log @ [e]) = admissions_in_turn pool log"
  unfolding admissions_in_turn_append by (cases e) auto

lemma filter_head:
  "filter P xs = h # rest \<Longrightarrow>
   h \<in> set xs \<and> P h \<and> (\<forall>a \<in> set (takeWhile (\<lambda>i. i \<noteq> h) xs). \<not> P a)"
proof (induction xs)
  case Nil
  then show ?case by simp
next
  case (Cons x xs)
  show ?case
  proof (cases "P x")
    case True
    with Cons.prems have "x = h" by simp
    with True show ?thesis by simp
  next
    case False
    with Cons.prems have "filter P xs = h # rest" by simp
    from Cons.IH [OF this] False show ?thesis by auto
  qed
qed

lemma filter_drop_head:
  assumes "distinct xs" and "filter P xs = h # rest"
  shows "filter (\<lambda>i. P i \<and> i \<noteq> h) xs = rest"
proof -
  have "distinct (filter P xs)" using assms(1) by simp
  with assms(2) have h: "h \<notin> set rest" by simp
  have "filter (\<lambda>i. P i \<and> i \<noteq> h) xs = filter (\<lambda>i. i \<noteq> h) (filter P xs)"
    by (simp add: conj_commute)
  also have "\<dots> = filter (\<lambda>i. i \<noteq> h) rest" using assms(2) by simp
  also have "\<dots> = rest" using h by (induction rest) auto
  finally show ?thesis .
qed

lemma queue_matches_log_other:
  assumes "queue_matches_log pool queue log"
    and "q \<noteq> pool \<or> r = REJECTED \<or> r = ADMIT_IMMEDIATELY"
  shows "queue_matches_log pool queue (log @ [(q, i, r)])"
  using assms by (auto simp add: queue_matches_log_def queued_append left_queue_append)

lemma queue_matches_log_enqueue:
  assumes "queue_matches_log pool queue log"
    and "query_id (schedule node) \<notin> set (queued pool log)"
  shows "queue_matches_log pool (queue @ [node]) (log @ [(pool, query_id (schedule node), QUEUED)])"
proof -
  from assms have "\<not> left_queue pool log (query_id (schedule node))"
    unfolding queue_matches_log_def by blast
  with assms(1) show ?thesis
    by (simp add: queue_matches_log_def queued_append left_queue_append)
qed

lemma queue_matches_log_remove:
  assumes "queue_matches_log pool queue log" and "i \<in> set (queued pool log)"
    and "r = CANCELLED_IN_QUEUE \<or> r = TIME_OUT"
  shows "queue_matches_log pool (filter (\<lambda>node. query_id (schedule node) \<noteq> i) queue)
           (log @ [(pool, i, r)])"
proof -
  have f: "map (\<lambda>node. query_id (schedule node))
             (filter (\<lambda>node. query_id (schedule node) \<noteq> i) queue)
           = filter (\<lambda>j. j \<noteq> i) (map (\<lambda>node. query_id (schedule node)) queue)"
    by (simp add: filter_map comp_def)
  have g: "filter (\<lambda>j. j \<noteq> i) (filter (\<lambda>i. \<not> left_queue pool log i) (queued pool log))
           = filter (\<lambda>j. \<not> (left_queue pool log j \<or> i = j)) (queued pool log)"
    by (auto intro: filter_cong)
  from assms(1) have i1: "map (\<lambda>node. query_id (schedule node)) queue
        = filter (\<lambda>i. \<not> left_queue pool log i) (queued pool log)"
    and i3: "\<forall>i. left_queue pool log i \<longrightarrow> i \<in> set (queued pool log)"
    by (simp_all add: queue_matches_log_def)
  have q: "queued pool (log @ [(pool, i, r)]) = queued pool log"
    using assms(3) by (auto simp add: queued_append)
  have l: "left_queue pool (log @ [(pool, i, r)]) j = (left_queue pool log j \<or> i = j)" for j
    using assms(3) by (auto simp add: left_queue_append)
  show ?thesis
    unfolding queue_matches_log_def q l f i1 g using i3 assms(2) by auto
qed

lemma queue_matches_log_dequeue_head:
  assumes "queue_matches_log pool (node # rest) log" and "distinct (queued pool log)"
    and "r = ADMIT_QUEUED \<or> r = CANCELLED_IN_QUEUE"
  shows "queue_matches_log pool rest (log @ [(pool, query_id (schedule node), r)])
         \<and> admitted_in_turn pool log (query_id (schedule node))"
proof -
  let ?h = "query_id (schedule node)"
  from assms(1) have hd: "filter (\<lambda>i. \<not> left_queue pool log i) (queued pool log)
        = ?h # map (\<lambda>node. query_id (schedule node)) rest"
    and i3: "\<forall>i. left_queue pool log i \<longrightarrow> i \<in> set (queued pool log)"
    by (simp_all add: queue_matches_log_def)
  from filter_head [OF hd] have turn: "admitted_in_turn pool log ?h"
    by (simp add: admitted_in_turn_def)
  from filter_head [OF hd] have inq: "?h \<in> set (queued pool log)" by simp
  have "filter (\<lambda>i. \<not> left_queue pool log i \<and> i \<noteq> ?h) (queued pool log)
        = map (\<lambda>node. query_id (schedule node)) rest"
    using assms(2) hd by (rule filter_drop_head)
  then have rest: "filter (\<lambda>j. \<not> (left_queue pool log j \<or> ?h = j)) (queued pool log)
        = map (\<lambda>node. query_id (schedule node)) rest"
    by (simp add: eq_commute [of ?h])
  have q: "queued pool (log @ [(pool, ?h, r)]) = queued pool log"
    using assms(3) by (auto simp add: queued_append)
  have l: "left_queue pool (log @ [(pool, ?h, r)]) j = (left_queue pool log j \<or> ?h = j)" for j
    using assms(3) by (auto simp add: left_queue_append)
  have "queue_matches_log pool rest (log @ [(pool, ?h, r)])"
    unfolding queue_matches_log_def q l rest using i3 inq by auto
  with turn show ?thesis by simp
qed

lemma fifo_inv_same:
  assumes "fifo_inv pool queues log" and "queues' pool = queues pool"
  shows "fifo_inv pool queues' log"
  using assms by (simp add: fifo_inv_def)

lemma fifo_inv_other:
  assumes "fifo_inv pool queues log"
    and "q \<noteq> pool \<or> r = REJECTED \<or> r = ADMIT_IMMEDIATELY"
    and "queues' pool = queues pool"
  shows "fifo_inv pool queues' (log @ [(q, i, r)])"
  unfolding fifo_inv_def
proof (intro impI)
  assume "distinct (queued pool (log @ [(q, i, r)]))"
  with assms(2) have d: "distinct (queued pool log)"
    by (auto simp add: queued_append)
  with assms(1) have m: "queue_matches_log pool (queues pool) log"
    and t: "admissions_in_turn pool log"
    by (simp_all add: fifo_inv_def)
  from m assms(2) have "queue_matches_log pool (queues pool) (log @ [(q, i, r)])"
    by (rule queue_matches_log_other)
  moreover from assms(2) have "(q, i, r) \<noteq> (pool, fst (snd (q, i, r)), ADMIT_QUEUED)"
    by auto
  then have "admissions_in_turn pool (log @ [(q, i, r)]) = admissions_in_turn pool log"
    by (rule admissions_in_turn_append_other)
  ultimately show "queue_matches_log pool (queues' pool) (log @ [(q, i, r)])
      \<and> admissions_in_turn pool (log @ [(q, i, r)])"
    using t assms(3) by simp
qed

lemma fifo_inv_enqueue:
  assumes "fifo_inv pool queues log"
    and "queues' pool = (if q = pool then queues pool @ [node] else queues pool)"
  shows "fifo_inv pool queues' (log @ [(q, query_id (schedule node), QUEUED)])"
proof (cases "q = pool")
  case False
  with assms show ?thesis by (simp add: fifo_inv_other)
next
  case True
  show ?thesis
    unfolding fifo_inv_def
  proof (intro impI)
    assume "distinct (queued pool (log @ [(q, query_id (schedule node), QUEUED)]))"
    with True have d: "distinct (queued pool log)"
      and fresh: "query_id (schedule node) \<notin> set (queued pool log)"
      by (simp_all add: queued_append)
    from assms(1) d have m: "queue_matches_log pool (queues pool) log"
      and t: "admissions_in_turn pool log"
      by (simp_all add: fifo_inv_def)
    from m fresh have "queue_matches_log pool (queues pool @ [node])
        (log @ [(pool, query_id (schedule node), QUEUED)])"
      by (rule queue_matches_log_enqueue)
    moreover have "admissions_in_turn pool (log @ [(q, query_id (schedule node), QUEUED)])
        = admissions_in_turn pool log"
      by (rule admissions_in_turn_append_other) simp
    ultimately show "queue_matches_log pool (queues' pool)
          (log @ [(q, query_id (schedule node), QUEUED)])
        \<and> admissions_in_turn pool (log @ [(q, query_id (schedule node), QUEUED)])"
      using t True assms(2) by simp
  qed
qed

lemma fifo_inv_remove:
  assumes "fifo_inv pool queues log" and "(q, i, QUEUED) \<in> set log"
    and "r = CANCELLED_IN_QUEUE \<or> r = TIME_OUT"
    and "queues' pool = (if q = pool
           then filter (\<lambda>node. query_id (schedule node) \<noteq> i) (queues pool) else queues pool)"
  shows "fifo_inv pool queues' (log @ [(q, i, r)])"
proof (cases "q = pool")
  case False
  with assms show ?thesis by (simp add: fifo_inv_other)
next
  case True
  show ?thesis
    unfolding fifo_inv_def
  proof (intro impI)
    assume "distinct (queued pool (log @ [(q, i, r)]))"
    with assms(3) have d: "distinct (queued pool log)"
      by (auto simp add: queued_append)
    from assms(1) d have m: "queue_matches_log pool (queues pool) log"
      and t: "admissions_in_turn pool log"
      by (simp_all add: fifo_inv_def)
    from assms(2) True have inq: "i \<in> set (queued pool log)"
      by (force simp add: queued_def)
    from m inq assms(3) have "queue_matches_log pool
        (filter (\<lambda>node. query_id (schedule node) \<noteq> i) (queues pool)) (log @ [(pool, i, r)])"
      by (rule queue_matches_log_remove)
    moreover from assms(3) have "(q, i, r) \<noteq> (pool, fst (snd (q, i, r)), ADMIT_QUEUED)"
      by auto
    then have "admissions_in_turn pool (log @ [(q, i, r)]) = admissions_in_turn pool log"
      by (rule admissions_in_turn_append_other)
    ultimately show "queue_matches_log pool (queues' pool) (log @ [(q, i, r)])
        \<and> admissions_in_turn pool (log @ [(q, i, r)])"
      using t True assms(4) by simp
  qed
qed

lemma fifo_inv_dequeue_head:
  assumes "fifo_inv pool queues log" and "queues q = node # rest"
    and "r = ADMIT_QUEUED \<or> r = CANCELLED_IN_QUEUE"
    and "queues' pool = (if q = pool then rest else queues pool)"
  shows "fifo_inv pool queues' (log @ [(q, query_id (schedule node), r)])"
proof (cases "q = pool")
  case False
  with assms show ?thesis by (simp add: fifo_inv_other)
next
  case True
  show ?thesis
    unfolding fifo_inv_def
  proof (intro impI)
    assume "distinct (queued pool (log @ [(q, query_id (schedule node), r)]))"
    with assms(3) have d: "distinct (queued pool log)"
      by (auto simp add: queued_append)
    from assms(1) d have "queue_matches_log pool (queues pool) log"
      and t: "admissions_in_turn pool log"
      by (simp_all add: fifo_inv_def)
    with assms(2) True have m: "queue_matches_log pool (node # rest) log" by simp
    from queue_matches_log_dequeue_head [OF m d assms(3)]
    have m': "queue_matches_log pool rest (log @ [(pool, query_id (schedule node), r)])"
      and turn: "admitted_in_turn pool log (query_id (schedule node))"
      by simp_all
    from t turn True have "admissions_in_turn pool (log @ [(q, query_id (schedule node), r)])"
      unfolding admissions_in_turn_append by blast
    with m' True assms(4)
    show "queue_matches_log pool (queues' pool) (log @ [(q, query_id (schedule node), r)])
        \<and> admissions_in_turn pool (log @ [(q, query_id (schedule node), r)])"
      by simp
  qed
qed

lemma fifo_inv_init: "fifo_inv pool (\<lambda>p. []) []"
  by (simp add: fifo_inv_def queue_matches_log_def admissions_in_turn_def queued_def left_queue_def)

lemma submit_start_fifo:
  assumes "submit_start dc pf pool_cfg cluster_size s0 ctrl = Some (r, s, ctrl1)"
    and "fifo_inv pool (request_queue_map ctrl) (profile_log ctrl)"
  shows "fifo_inv pool (request_queue_map ctrl1) (profile_log ctrl1)"
proof -
  from assms(1) obtain u where u: "UpdateMemoryRequirements pf pool_cfg s0 = Some u"
    by (auto simp add: submit_start_def split: option.splits)
  have noted: "fifo_inv pool (request_queue_map ctrl1) (profile_log ctrl1)"
    if "request_queue_map ctrl1 = request_queue_map ctrl"
      and "profile_log ctrl1 = profile_log ctrl
           \<or> profile_log ctrl1 = profile_log ctrl @ [(request_pool u, query_id u, REJECTED)]
           \<or> profile_log ctrl1 = profile_log ctrl @ [(request_pool u, query_id u, ADMIT_IMMEDIATELY)]"
    using that assms(2) by (auto simp add: fifo_inv_other)
  show ?thesis
  proof (cases "RejectImmediately dc u pool_cfg cluster_size ctrl")
    case (Some reason)
    with assms(1) have "ctrl1 = ctrl
        \<or> ctrl1 = write_profile u REJECTED (set_outcome (query_id u) REJECTED_OR_TIMED_OUT ctrl)"
      by (auto simp add: submit_start_cases [OF u] split: AdmissionOutcome.splits)
    then show ?thesis by (elim disjE; intro noted; simp)
  next
    case None
    show ?thesis
    proof (cases "CanAdmitRequest dc ctrl u pool_cfg cluster_size False")
      case True
      with None assms(1) have "ctrl1 = ReleaseQuery u (AdmitQuery u ctrl)
          \<or> ctrl1 = write_profile u ADMIT_IMMEDIATELY
                (AdmitQuery u (set_outcome (query_id u) ADMITTED ctrl))"
        by (auto simp add: submit_start_cases [OF u] split: AdmissionOutcome.splits)
      then show ?thesis by (elim disjE; intro noted; simp)
    next
      case False
      with None assms(1) have c: "ctrl1 = write_profile u QUEUED
          (ctrl\<lparr>request_queue_map := (request_queue_map ctrl)
                  (request_pool u := request_queue_map ctrl (request_pool u) @ [\<lparr>schedule = u\<rparr>]),
                pool_stats := (pool_stats ctrl)
                  (request_pool u := PoolStats_Queue (pool_stats ctrl (request_pool u)))\<rparr>)"
        by (auto simp add: submit_start_cases [OF u])
      have "fifo_inv pool (request_queue_map ctrl1)
          (profile_log ctrl @ [(request_pool u, query_id (schedule \<lparr>schedule = u\<rparr>), QUEUED)])"
        using assms(2) by (rule fifo_inv_enqueue) (simp add: c)
      then show ?thesis by (simp add: c)
    qed
  qed
qed

lemma submit_finish_fifo:
  assumes "submit_finish s ctrl = (status, outcome, ctrl1)"
    and "(request_pool s, query_id s, QUEUED) \<in> set (profile_log ctrl)"
    and "fifo_inv pool (request_queue_map ctrl) (profile_log ctrl)"
  shows "fifo_inv pool (request_queue_map ctrl1) (profile_log ctrl1)"
proof (cases "Promise_Set (admit_outcomes ctrl (query_id s)) REJECTED_OR_TIMED_OUT")
  case ADMITTED
  with assms(1) have "request_queue_map ctrl1 = request_queue_map ctrl"
    and "profile_log ctrl1 = profile_log ctrl"
    by (auto simp add: submit_finish_def Let_def)
  with assms(3) show ?thesis by simp
next
  case REJECTED_OR_TIMED_OUT
  with assms(1) have q: "request_queue_map ctrl1 = (request_queue_map ctrl)
        (request_pool s := filter (\<lambda>node. query_id (schedule node) \<noteq> query_id s)
           (request_queue_map ctrl (request_pool s)))"
    and l: "profile_log ctrl1 = profile_log ctrl @ [(request_pool s, query_id s, TIME_OUT)]"
    by (auto simp add: submit_finish_def Let_def)
  have "fifo_inv pool (request_queue_map ctrl1)
      (profile_log ctrl @ [(request_pool s, query_id s, TIME_OUT)])"
    using assms(3,2) by (rule fifo_inv_remove) (simp_all add: q)
  with l show ?thesis by simp
next
  case CANCELLED
  with assms(1) have q: "request_queue_map ctrl1 = (request_queue_map ctrl)
        (request_pool s := filter (\<lambda>node. query_id (schedule node) \<noteq> query_id s)
           (request_queue_map ctrl (request_pool s)))"
    and l: "profile_log ctrl1 = profile_log ctrl @ [(request_pool s, query_id s, CANCELLED_IN_QUEUE)]"
    by (auto simp add: submit_finish_def Let_def)
  have "fifo_inv pool (request_queue_map ctrl1)
      (profile_log ctrl @ [(request_pool s, query_id s, CANCELLED_IN_QUEUE)])"
    using assms(3,2) by (rule fifo_inv_remove) (simp_all add: q)
  with l show ?thesis by simp
qed

lemma DequeuePool_fifo:
  "fifo_inv pool (request_queue_map ctrl) (profile_log ctrl) \<Longrightarrow>
   fifo_inv pool (request_queue_map (DequeuePool dc pool_cfg cluster_size q k ctrl))
     (profile_log (DequeuePool dc pool_cfg cluster_size q k ctrl))"
proof (induction k arbitrary: ctrl)
  case 0
  then show ?case by simp
next
  case (Suc k)
  show ?case
  proof (cases "request_queue_map ctrl q")
    case Nil
    with Suc.prems show ?thesis by simp
  next
    case (Cons node rest)
    show ?thesis
    proof (cases "CanAdmitRequest dc ctrl (schedule node) pool_cfg cluster_size True")
      case False
      with Cons Suc.prems show ?thesis by simp
    next
      case True
      define s where "s = schedule node"
      define outcome where "outcome = Promise_Set (admit_outcomes ctrl (query_id s)) ADMITTED"
      define ctrl4 where "ctrl4 =
        (if outcome = ADMITTED
         then (AdmitQuery s ((set_outcome (query_id s) outcome ctrl)
                  \<lparr>request_queue_map := (request_queue_map ctrl)(q := rest)\<rparr>))
                \<lparr>profile_log := profile_log ctrl @ [(q, query_id s, ADMIT_QUEUED)]\<rparr>
         else (ReleaseQuery s (AdmitQuery s ((set_outcome (query_id s) outcome ctrl)
                  \<lparr>request_queue_map := (request_queue_map ctrl)(q := rest)\<rparr>)))
                \<lparr>profile_log := profile_log ctrl @ [(q, query_id s, CANCELLED_IN_QUEUE)]\<rparr>)"
      from Cons True have unfold: "DequeuePool dc pool_cfg cluster_size q (Suc k) ctrl
          = DequeuePool dc pool_cfg cluster_size q k ctrl4"
        by (simp add: Let_def ctrl4_def outcome_def s_def)
      have q4: "request_queue_map ctrl4 = (request_queue_map ctrl)(q := rest)"
        by (simp add: ctrl4_def)
      have l4: "profile_log ctrl4 = profile_log ctrl @
          [(q, query_id (schedule node), if outcome = ADMITTED then ADMIT_QUEUED else CANCELLED_IN_QUEUE)]"
        by (simp add: ctrl4_def s_def)
      have "fifo_inv pool (request_queue_map ctrl4)
          (profile_log ctrl @
            [(q, query_id (schedule node), if outcome = ADMITTED then ADMIT_QUEUED else CANCELLED_IN_QUEUE)])"
        using Suc.prems Cons by (rule fifo_inv_dequeue_head) (simp_all add: q4)
      then have "fifo_inv pool (request_queue_map ctrl4) (profile_log ctrl4)"
        by (simp add: l4)
      from Suc.IH [OF this] show ?thesis by (simp only: unfold)
    qed
  qed
qed

lemma step_fifo:
  assumes "step dc pf ev ctrl = Some ctrl1"
    and "fifo_inv pool (request_queue_map ctrl) (profile_log ctrl)"
  shows "fifo_inv pool (request_queue_map ctrl1) (profile_log ctrl1)"
proof (cases ev)
  case (Ev_Submit pool_cfg cluster_size s0)
  with assms(1) obtain r s where "submit_start dc pf pool_cfg cluster_size s0 ctrl = Some (r, s, ctrl1)"
    by (auto simp add: step_def split: option.splits)
  then show ?thesis using assms(2) by (rule submit_start_fifo)
next
  case (Ev_Resume s)
  show ?thesis
  proof (cases "(request_pool s, query_id s, QUEUED) \<in> set (profile_log ctrl)")
    case True
    with Ev_Resume assms(1) obtain status outcome
      where "submit_finish s ctrl = (status, outcome, ctrl1)"
      by (auto simp add: step_def split: prod.splits)
    then show ?thesis using True assms(2) by (rule submit_finish_fifo)
  next
    case False
    with Ev_Resume assms show ?thesis by (simp add: step_def)
  qed
next
  case (Ev_Cancel i)
  with assms show ?thesis by (auto simp add: step_def)
next
  case (Ev_Dequeue q pool_cfg cluster_size k)
  with assms(1) have "ctrl1 = DequeuePool dc pool_cfg cluster_size q k ctrl"
    by (simp add: step_def)
  with assms(2) show ?thesis by (simp add: DequeuePool_fifo)
next
  case (Ev_Other f)
  with assms show ?thesis by (auto simp add: step_def)
qed

lemma run_fifo:
  "run dc pf evs ctrl = Some ctrl1 \<Longrightarrow>
   fifo_inv pool (request_queue_map ctrl) (profile_log ctrl) \<Longrightarrow>
   fifo_inv pool (request_queue_map ctrl1) (profile_log ctrl1)"
proof (induction evs arbitrary: ctrl)
  case Nil
  then show ?case by simp
next
  case (Cons ev evs)
  from Cons.prems(1) obtain c where c: "step dc pf ev ctrl = Some c"
    and r: "run dc pf evs c = Some ctrl1"
    by (auto split: option.splits)
  from c Cons.prems(2) have "fifo_inv pool (request_queue_map c) (profile_log c)"
    by (rule step_fifo)
  with r show ?case by (rule Cons.IH)
qed

lemma DequeuePool_head_blocked:
  "request_queue_map ctrl pool = node # rest \<Longrightarrow>
   \<not> CanAdmitRequest dc ctrl (schedule node) pool_cfg cluster_size True \<Longrightarrow>
   DequeuePool dc pool_cfg cluster_size pool k ctrl = ctrl"
  by (cases k) simp_all

lemma DequeuePool_numeral:
  "DequeuePool dc pool_cfg cluster_size pool (numeral k) ctrl
   = DequeuePool dc pool_cfg cluster_size pool (Suc (pred_numeral k)) ctrl"
  by (simp only: numeral_eq_Suc)

lemma second_request_requirements:
  "UpdateMemoryRequirements small_machine bounded_pool second_request
     = Some (second_request\<lparr>per_backend_mem_limit := 200, per_backend_mem_to_admit := 200\<rparr>)"
  by (simp add: UpdateMemoryRequirements_def start_mem_to_admit_eq has_query_option_def
      mimic_old_behaviour_def set_per_backend_mem_limit_def cap_at_physical_mem_def
      clamp_to_pool_limits_def max64_def min64_def word_sless_alt Let_def)

lemma two_queued_then_dequeued_log:
  "\<exists>ctrl. run queue_first small_machine two_queued_then_dequeued AdmissionController_init = Some ctrl
     \<and> profile_log ctrl = [(''q1'', (0, 1), QUEUED), (''q1'', (0, 2), QUEUED),
                            (''q1'', (0, 1), ADMIT_QUEUED), (''q1'', (0, 2), ADMIT_QUEUED)]"
  by (simp add: step_def submit_start_cases [OF two_host_request_requirements]
      submit_start_cases [OF second_request_requirements]
      RejectImmediately_def PoolDisabled_def CanAccommodateMaxInitialReservation_def
      GetClusterMemoryToAdmit_def word_sless_alt
      Promise_Set_def AdmissionController_init_def DequeuePool_numeral Let_def)

text \<open>
  C9. In every run of a fresh controller in which no request is queued twice in
  the pool, admissions from the pool's queue follow the order of queueing: when a
  request B is admitted from the queue, every request A that was queued before B
  has already left the queue, and it left by being admitted unless it was
  cancelled or timed out. And a pass of the dequeue thread over a pool whose head
  cannot be admitted changes nothing: no request behind the head is admitted.
\<close>

theorem queue_is_fifo:
  assumes "run dc pf evs AdmissionController_init = Some ctrl"
    and "distinct (queued pool (profile_log ctrl))"
  shows "(\<forall>xs ys a b.
            profile_log ctrl = xs @ (pool, b, ADMIT_QUEUED) # ys
            \<and> queued_before a b (queued pool (profile_log ctrl)) \<longrightarrow>
              left_queue pool xs a
              \<and> ((pool, a, CANCELLED_IN_QUEUE) \<notin> set xs \<and> (pool, a, TIME_OUT) \<notin> set xs \<longrightarrow>
                   (pool, a, ADMIT_QUEUED) \<in> set xs))
       \<and> (\<forall>c node rest pool_cfg cluster_size k.
            request_queue_map c pool = node # rest
            \<and> \<not> CanAdmitRequest dc c (schedule node) pool_cfg cluster_size True \<longrightarrow>
              DequeuePool dc pool_cfg cluster_size pool k c = c)"
proof (intro conjI allI impI)
  fix xs ys a b
  assume h: "profile_log ctrl = xs @ (pool, b, ADMIT_QUEUED) # ys
            \<and> queued_before a b (queued pool (profile_log ctrl))"
  have "fifo_inv pool (request_queue_map AdmissionController_init)
      (profile_log AdmissionController_init)"
    by (simp add: AdmissionController_init_def fifo_inv_init)
  with assms(1) have "fifo_inv pool (request_queue_map ctrl) (profile_log ctrl)"
    by (rule run_fifo)
  with assms(2) have "admissions_in_turn pool (profile_log ctrl)"
    by (simp add: fifo_inv_def)
  with h have turn: "admitted_in_turn pool xs b"
    unfolding admissions_in_turn_def by blast
  then have b: "b \<in> set (queued pool xs)"
    by (simp add: admitted_in_turn_def)
  have "queued pool (profile_log ctrl) = queued pool xs @ queued pool ((pool, b, ADMIT_QUEUED) # ys)"
    using h by (simp add: queued_append2)
  with h b have "a \<in> set (takeWhile (\<lambda>i. i \<noteq> b) (queued pool xs))"
    by (simp add: queued_before_def)
  with turn show l: "left_queue pool xs a"
    by (simp add: admitted_in_turn_def)
  show "(pool, a, ADMIT_QUEUED) \<in> set xs"
    if "(pool, a, CANCELLED_IN_QUEUE) \<notin> set xs \<and> (pool, a, TIME_OUT) \<notin> set xs"
    using l that by (simp add: left_queue_def)
next
  fix c node rest pool_cfg cluster_size k
  assume "request_queue_map c pool = node # rest
            \<and> \<not> CanAdmitRequest dc c (schedule node) pool_cfg cluster_size True"
  then show "DequeuePool dc pool_cfg cluster_size pool k c = c"
    by (simp add: DequeuePool_head_blocked)
qed

theorem queue_is_fifo_witness:
  "\<exists>ctrl. run queue_first small_machine two_queued_then_dequeued AdmissionController_init = Some ctrl
     \<and> distinct (queued ''q1'' (profile_log ctrl))
     \<and> profile_log ctrl = [(''q1'', (0, 1), QUEUED), (''q1'', (0, 2), QUEUED),
                            (''q1'', (0, 1), ADMIT_QUEUED)] @ (''q1'', (0, 2), ADMIT_QUEUED) # []
     \<and> queued_before (0, 1) (0, 2) (queued ''q1'' (profile_log ctrl))
     \<and> left_queue ''q1'' [(''q1'', (0, 1), QUEUED), (''q1'', (0, 2), QUEUED),
                            (''q1'', (0, 1), ADMIT_QUEUED)] (0, 1)"
proof -
  from two_queued_then_dequeued_log obtain ctrl where
    r: "run queue_first small_machine two_queued_then_dequeued AdmissionController_init = Some ctrl"
    and l: "profile_log ctrl = [(''q1'', (0, 1), QUEUED), (''q1'', (0, 2), QUEUED),
                            (''q1'', (0, 1), ADMIT_QUEUED), (''q1'', (0, 2), ADMIT_QUEUED)]"
    by blast
  from l have d: "distinct (queued ''q1'' (profile_log ctrl))"
    by (simp add: queued_def)
  from l have b: "queued_before (0, 1) (0, 2) (queued ''q1'' (profile_log ctrl))"
    by (simp add: queued_def queued_before_def)
  from l have s: "profile_log ctrl = [(''q1'', (0, 1), QUEUED), (''q1'', (0, 2), QUEUED),
                            (''q1'', (0, 1), ADMIT_QUEUED)] @ (''q1'', (0, 2), ADMIT_QUEUED) # []"
    by simp
  from queue_is_fifo [OF r d] s b
  have "left_queue ''q1'' [(''q1'', (0, 1), QUEUED), (''q1'', (0, 2), QUEUED),
                            (''q1'', (0, 1), ADMIT_QUEUED)] (0, 1)"
    by blast
  with r d s b show ?thesis by blast
qed

end
